theory Spec2Isabelle
  imports Complex_Main "HOL-Library.Word"
begin

unbundle bit_operations_syntax

section \<open>Data model\<close>

text \<open>
  The kernels of \<^verbatim>\<open>miniapps/hypsys/apps/euler.hpp\<close> (the partial-assembly Hessian action of
  the TMOP integrator) work on \<^verbatim>\<open>double\<close> buffers. The properties below are about exact arithmetic, so
  a \<^verbatim>\<open>double\<close> is a \<^typ>\<open>real\<close> here; rounding, NaN and infinities are outside the model.
  A \<^verbatim>\<open>Vector\<close> or \<^verbatim>\<open>Array<double>\<close> is its contents by offset. Reading beyond
  the size of a buffer is undefined in C++ and is not modelled: sizes are the obligation of the
  caller.
\<close>

type_synonym vec = "nat \<Rightarrow> real"

text \<open>A \<^verbatim>\<open>DenseMatrix\<close> is its entries \<^verbatim>\<open>M(i,j)\<close>.\<close>

type_synonym DenseMatrix = "nat \<Rightarrow> nat \<Rightarrow> real"

text \<open>
  \<^verbatim>\<open>for (int i = 0; i < n; i++) body\<close> on a state: the body runs for \<open>i = 0, \<dots>, n - 1\<close>
  in this order. \<^verbatim>\<open>MFEM_FORALL_2D\<close> and \<^verbatim>\<open>MFEM_FOREACH_THREAD\<close> are such loops on the
  host; on a device every iteration writes cells of its own and the barriers
  (\<^verbatim>\<open>MFEM_SYNC_THREAD\<close>) separate the stages, so the sequential order is one of the
  schedules.
\<close>

primrec for_loop :: "nat \<Rightarrow> (nat \<Rightarrow> 's \<Rightarrow> 's) \<Rightarrow> 's \<Rightarrow> 's" where
  "for_loop 0 body s = s"
| "for_loop (Suc n) body s = body n (for_loop n body s)"

text \<open>A local array of four doubles, \<^verbatim>\<open>double a[4] = {a0, a1, a2, a3}\<close>.\<close>

definition arr4 :: "real \<Rightarrow> real \<Rightarrow> real \<Rightarrow> real \<Rightarrow> vec" where
  "arr4 a0 a1 a2 a3 = (\<lambda>k. if k = 0 then a0 else if k = 1 then a1 else if k = 2 then a2 else a3)"

text \<open>
  Modelled from the spec: \<^verbatim>\<open>Reshape\<close> (general/forall.hpp, linalg/dtensor.hpp) is not under
  src/. It views a flat buffer as a tensor whose first index runs fastest; the source relies
  on this layout where it wraps \<^verbatim>\<open>&P(0,0,r,c,qx,qy,e)\<close> as a column-major 2x2
  \<^verbatim>\<open>DenseMatrix\<close> and reads the same entries back as \<^verbatim>\<open>dP(i,j,r,c,qx,qy,e)\<close>.
\<close>

definition offset2 :: "nat \<Rightarrow> nat \<Rightarrow> nat \<Rightarrow> nat" where
  "offset2 n0 i j = i + n0 * j"

definition offset4 :: "nat \<Rightarrow> nat \<Rightarrow> nat \<Rightarrow> nat \<Rightarrow> nat \<Rightarrow> nat \<Rightarrow> nat \<Rightarrow> nat" where
  "offset4 n0 n1 n2 i j k l = i + n0 * (j + n1 * (k + n2 * l))"

definition offset5 ::
  "nat \<Rightarrow> nat \<Rightarrow> nat \<Rightarrow> nat \<Rightarrow> nat \<Rightarrow> nat \<Rightarrow> nat \<Rightarrow> nat \<Rightarrow> nat \<Rightarrow> nat" where
  "offset5 n0 n1 n2 n3 i j k l m = i + n0 * (j + n1 * (k + n2 * (l + n3 * m)))"

definition offset7 :: "nat \<Rightarrow> nat \<Rightarrow> nat \<Rightarrow> nat \<Rightarrow> nat \<Rightarrow> nat \<Rightarrow>
    nat \<Rightarrow> nat \<Rightarrow> nat \<Rightarrow> nat \<Rightarrow> nat \<Rightarrow> nat \<Rightarrow> nat \<Rightarrow> nat" where
  "offset7 n0 n1 n2 n3 n4 n5 i j k l m n e =
     i + n0 * (j + n1 * (k + n2 * (l + n3 * (m + n4 * (n + n5 * e)))))"

definition Reshape2 :: "vec \<Rightarrow> nat \<Rightarrow> nat \<Rightarrow> nat \<Rightarrow> nat \<Rightarrow> real" where
  "Reshape2 a n0 n1 = (\<lambda>i j. a (offset2 n0 i j))"

definition Reshape4 ::
  "vec \<Rightarrow> nat \<Rightarrow> nat \<Rightarrow> nat \<Rightarrow> nat \<Rightarrow> nat \<Rightarrow> nat \<Rightarrow> nat \<Rightarrow> nat \<Rightarrow> real" where
  "Reshape4 a n0 n1 n2 n3 = (\<lambda>i j k l. a (offset4 n0 n1 n2 i j k l))"

definition Reshape7 :: "vec \<Rightarrow> nat \<Rightarrow> nat \<Rightarrow> nat \<Rightarrow> nat \<Rightarrow> nat \<Rightarrow> nat \<Rightarrow> nat \<Rightarrow>
    nat \<Rightarrow> nat \<Rightarrow> nat \<Rightarrow> nat \<Rightarrow> nat \<Rightarrow> nat \<Rightarrow> nat \<Rightarrow> real" where
  "Reshape7 a n0 n1 n2 n3 n4 n5 n6 =
     (\<lambda>i j k l m n e. a (offset7 n0 n1 n2 n3 n4 n5 i j k l m n e))"

subsection \<open>Library operations on small matrices\<close>

text \<open>
  Modelled from the spec: \<^verbatim>\<open>DenseMatrix::Det\<close> (linalg/densemat.cpp) is not under src/.
  The determinant of a 2x2 matrix.
\<close>

definition Det :: "DenseMatrix \<Rightarrow> real" where
  "Det M = M 0 0 * M 1 1 - M 1 0 * M 0 1"

text \<open>
  Modelled from the spec: \<^verbatim>\<open>DenseMatrix::FNorm2\<close> is not under src/. The square of the
  Frobenius norm of a 2x2 matrix.
\<close>

definition FNorm2 :: "DenseMatrix \<Rightarrow> real" where
  "FNorm2 M = M 0 0 * M 0 0 + M 1 0 * M 1 0 + M 0 1 * M 0 1 + M 1 1 * M 1 1"

text \<open>
  Modelled from the spec: \<^verbatim>\<open>Mult(b, c, a)\<close> on \<^verbatim>\<open>DenseMatrix\<close> is not under src/. The
  product \<open>b c\<close> of an (n x 2) and a (2 x 2) matrix.
\<close>

definition Mult :: "DenseMatrix \<Rightarrow> DenseMatrix \<Rightarrow> DenseMatrix" where
  "Mult b c = (\<lambda>i j. b i 0 * c 0 j + b i 1 * c 1 j)"

text \<open>
  Modelled from the spec: \<^verbatim>\<open>kernels::CalcInverse<2>\<close> (linalg/kernels.hpp) is not under
  src/. The inverse of a 2x2 matrix given as four column-major doubles; the source calls the
  result \<^verbatim>\<open>Jrt = Jtr^{-1}\<close>. A zero determinant is a division by zero in the code (no
  check); theorems that depend on the inverse assume a nonzero determinant.
\<close>

definition CalcInverse2 :: "vec \<Rightarrow> vec" where
  "CalcInverse2 d =
     (let det = d 0 * d 3 - d 1 * d 2
      in arr4 (d 3 / det) (- d 1 / det) (- d 2 / det) (d 0 / det))"

text \<open>
  Modelled from the spec: \<^verbatim>\<open>kernels::Mult(2,2,2, B, C, A)\<close> (linalg/kernels.hpp) is not
  under src/. The product \<open>A = B C\<close> of 2x2 matrices given as column-major arrays.
\<close>

definition kernels_Mult2 :: "vec \<Rightarrow> vec \<Rightarrow> vec" where
  "kernels_Mult2 B C =
     arr4 (B 0 * C 0 + B 2 * C 1) (B 1 * C 0 + B 3 * C 1)
          (B 0 * C 2 + B 2 * C 3) (B 1 * C 2 + B 3 * C 3)"

text \<open>
  Modelled from the spec: \<^verbatim>\<open>kernels::MultABt(2,2,2, A, B, ABt)\<close> (linalg/kernels.hpp) is
  not under src/. The product of \<open>A\<close> with the transpose of \<open>B\<close>, as the name says, for 2x2
  matrices given as column-major arrays.
\<close>

definition kernels_MultABt2 :: "vec \<Rightarrow> vec \<Rightarrow> vec" where
  "kernels_MultABt2 A B =
     arr4 (A 0 * B 0 + A 2 * B 2) (A 1 * B 0 + A 3 * B 2)
          (A 0 * B 1 + A 2 * B 3) (A 1 * B 1 + A 3 * B 3)"

section \<open>Invariant derivatives\<close>

text \<open>\<^verbatim>\<open>Dim2Invariant2_dM\<close>: \<open>dI2_dM = d(det(M))_dM = adj(M)^T\<close>. The result matrix is
  created by \<^verbatim>\<open>DenseMatrix dI(2)\<close>, which is zero outside the four assigned entries.\<close>

definition Dim2Invariant2_dM :: "DenseMatrix \<Rightarrow> DenseMatrix" where
  "Dim2Invariant2_dM M =
     (\<lambda>r c. if r = 0 \<and> c = 0 then M 1 1
            else if r = 0 \<and> c = 1 then - M 1 0
            else if r = 1 \<and> c = 0 then - M 0 1
            else if r = 1 \<and> c = 1 then M 0 0
            else 0)"

text \<open>\<^verbatim>\<open>Dim2Invariant2_dMdM\<close>: \<^verbatim>\<open>dMdM = 0.0; dMdM(1-i,1-j) = (i == j) ? 1.0 : -1.0\<close>.\<close>

definition Dim2Invariant2_dMdM :: "DenseMatrix \<Rightarrow> nat \<Rightarrow> nat \<Rightarrow> DenseMatrix" where
  "Dim2Invariant2_dMdM M i j =
     (\<lambda>r c. if r = 1 - i \<and> c = 1 - j then (if i = j then 1 else - 1) else 0)"

text \<open>\<^verbatim>\<open>Dim2Invariant1_dMdM\<close>: the entries \<^verbatim>\<open>dMdM(r,c)\<close> that the two loops assign.\<close>

definition Dim2Invariant1_dMdM :: "DenseMatrix \<Rightarrow> nat \<Rightarrow> nat \<Rightarrow> DenseMatrix" where
  "Dim2Invariant1_dMdM M i j =
     (let dI = Dim2Invariant2_dM M;
          ddet = dI i j;
          dfnorm2 = 2 * M i j;
          det = Det M;
          det2 = det * det;
          fnorm2 = FNorm2 M;
          dM = (\<lambda>r c. if r = i \<and> c = j then 1 else 0);
          ddI = Dim2Invariant2_dMdM M i j
      in (\<lambda>r c.
            (det2 *
             (2 * ddet * M r c + 2 * det * dM r c
              - dfnorm2 * dI r c - fnorm2 * ddI r c)
             - 2 * det * ddet *
             (2 * det * M r c - fnorm2 * dI r c)) / (det2 * det2)))"

section \<open>Forward interpolation (both kernels)\<close>

text \<open>
  Both kernels contain the same two contraction passes, on the arrays \<^verbatim>\<open>XxB, XxG, XyB, XyG\<close>
  and \<^verbatim>\<open>Xx0, Xx1, Xy0, Xy1\<close> in the setup and \<^verbatim>\<open>RxB, \<dots>, Ry1\<close> in the apply kernel.
  \<open>Xc\<close> is the loaded component, \<^verbatim>\<open>Xx[dy][dx]\<close> or \<^verbatim>\<open>Xy[dy][dx]\<close>; the accumulators
  \<^verbatim>\<open>u[0], v[0], u[1], v[1]\<close> start at zero. A shared array that one stage fills, each cell
  once, is the function of its indices that the stage computes; \<^verbatim>\<open>B1d[q][d]\<close> and
  \<^verbatim>\<open>G1d[q][d]\<close> (and the transposed copies \<^verbatim>\<open>B1dt[d][q]\<close>, \<^verbatim>\<open>G1dt[d][q]\<close>) hold
  \<^verbatim>\<open>b(q,d)\<close> and \<^verbatim>\<open>g(q,d)\<close>.
\<close>

definition XB :: "nat \<Rightarrow> (nat \<Rightarrow> nat \<Rightarrow> real) \<Rightarrow> (nat \<Rightarrow> nat \<Rightarrow> real) \<Rightarrow> nat \<Rightarrow> nat \<Rightarrow> real" where
  "XB D1D B1d Xc dy qx = for_loop D1D (\<lambda>dx u. u + B1d qx dx * Xc dy dx) 0"

definition XG :: "nat \<Rightarrow> (nat \<Rightarrow> nat \<Rightarrow> real) \<Rightarrow> (nat \<Rightarrow> nat \<Rightarrow> real) \<Rightarrow> nat \<Rightarrow> nat \<Rightarrow> real" where
  "XG D1D G1d Xc dy qx = for_loop D1D (\<lambda>dx v. v + G1d qx dx * Xc dy dx) 0"

definition X0 :: "nat \<Rightarrow> (nat \<Rightarrow> nat \<Rightarrow> real) \<Rightarrow> (nat \<Rightarrow> nat \<Rightarrow> real) \<Rightarrow> nat \<Rightarrow> nat \<Rightarrow> real" where
  "X0 D1D B1d XcG qy qx = for_loop D1D (\<lambda>dy u. u + XcG dy qx * B1d qy dy) 0"

definition X1 :: "nat \<Rightarrow> (nat \<Rightarrow> nat \<Rightarrow> real) \<Rightarrow> (nat \<Rightarrow> nat \<Rightarrow> real) \<Rightarrow> nat \<Rightarrow> nat \<Rightarrow> real" where
  "X1 D1D G1d XcB qy qx = for_loop D1D (\<lambda>dy v. v + XcB dy qx * G1d qy dy) 0"

text \<open>The array \<^verbatim>\<open>{GXx0h, GXy0h, GXx1h, GXy1h}\<close> (\<^verbatim>\<open>GXh_p\<close> in the setup, \<^verbatim>\<open>hX\<close> in the
  apply kernel) at the quadrature point \<open>(qx, qy)\<close> of element \<open>e\<close>.\<close>

definition GXh_p :: "nat \<Rightarrow> (nat \<Rightarrow> nat \<Rightarrow> real) \<Rightarrow> (nat \<Rightarrow> nat \<Rightarrow> real) \<Rightarrow>
    (nat \<Rightarrow> nat \<Rightarrow> nat \<Rightarrow> nat \<Rightarrow> real) \<Rightarrow> nat \<Rightarrow> nat \<Rightarrow> nat \<Rightarrow> vec" where
  "GXh_p D1D B1d G1d X e qy qx =
     (let Xx = (\<lambda>dy dx. X dx dy 0 e);
          Xy = (\<lambda>dy dx. X dx dy 1 e);
          XxB = XB D1D B1d Xx; XxG = XG D1D G1d Xx;
          XyB = XB D1D B1d Xy; XyG = XG D1D G1d Xy;
          Xx0 = X0 D1D B1d XxG; Xx1 = X1 D1D G1d XxB;
          Xy0 = X0 D1D B1d XyG; Xy1 = X1 D1D G1d XyB
      in arr4 (Xx0 qy qx) (Xy0 qy qx) (Xx1 qy qx) (Xy1 qy qx))"

text \<open>\<^verbatim>\<open>Jtr_p = {J(0,0), J(1,0), J(0,1), J(1,1)}\<close> and its inverse \<^verbatim>\<open>Jrt\<close>. \<open>J\<close> is
  \<^verbatim>\<open>Reshape(Jtr.Read(), VDIM, VDIM)\<close>, the view of the column-major data of \<^verbatim>\<open>Jtr\<close>, so
  \<^verbatim>\<open>J(i,j)\<close> is the entry \<^verbatim>\<open>Jtr(i,j)\<close>.\<close>

definition Jtr_p :: "DenseMatrix \<Rightarrow> vec" where
  "Jtr_p J = arr4 (J 0 0) (J 1 0) (J 0 1) (J 1 1)"

definition Jrt_p :: "DenseMatrix \<Rightarrow> vec" where
  "Jrt_p J = CalcInverse2 (Jtr_p J)"

section \<open>The setup kernel\<close>

text \<open>\<^verbatim>\<open>DenseMatrix Jrt(dim)\<close> filled through \<^verbatim>\<open>Jrt.HostWrite()\<close>: column-major.\<close>

definition Jrt :: "DenseMatrix \<Rightarrow> DenseMatrix" where
  "Jrt J = (\<lambda>i j. Jrt_p J (i + 2 * j))"

text \<open>Element assignment \<^verbatim>\<open>M(i,j) = v\<close> on a \<^verbatim>\<open>DenseMatrix\<close>.\<close>

definition set_entry :: "DenseMatrix \<Rightarrow> nat \<Rightarrow> nat \<Rightarrow> real \<Rightarrow> DenseMatrix" where
  "set_entry M i j v = (\<lambda>r c. if r = i \<and> c = j then v else M r c)"

text \<open>\<^verbatim>\<open>DSh\<close> (dof x dim), created zero and filled by the loops over \<open>i1\<close> and \<open>i2\<close>.\<close>

definition DSh :: "nat \<Rightarrow> (nat \<Rightarrow> nat \<Rightarrow> real) \<Rightarrow> (nat \<Rightarrow> nat \<Rightarrow> real) \<Rightarrow> nat \<Rightarrow> nat \<Rightarrow> DenseMatrix" where
  "DSh D1D B1d G1d qy qx =
     for_loop D1D (\<lambda>i1. for_loop D1D (\<lambda>i2 M.
        let bg = G1d qx i1 * B1d qy i2;
            gb = B1d qx i1 * G1d qy i2;
            dof = i2 + i1 * D1D
        in set_entry (set_entry M dof 0 bg) dof 1 gb)) (\<lambda>r c. 0)"

text \<open>\<^verbatim>\<open>DS = DSh Jrt\<close>.\<close>

definition DS :: "nat \<Rightarrow> (nat \<Rightarrow> nat \<Rightarrow> real) \<Rightarrow> (nat \<Rightarrow> nat \<Rightarrow> real) \<Rightarrow> DenseMatrix \<Rightarrow>
    nat \<Rightarrow> nat \<Rightarrow> DenseMatrix" where
  "DS D1D B1d G1d J qy qx = Mult (DSh D1D B1d G1d qy qx) (Jrt J)"

text \<open>\<^verbatim>\<open>Jpt = GXh Jrt\<close>, with \<^verbatim>\<open>GXh\<close> the column-major view of \<^verbatim>\<open>GXh_p\<close>.\<close>

definition Jpt :: "nat \<Rightarrow> (nat \<Rightarrow> nat \<Rightarrow> real) \<Rightarrow> (nat \<Rightarrow> nat \<Rightarrow> real) \<Rightarrow> DenseMatrix \<Rightarrow>
    (nat \<Rightarrow> nat \<Rightarrow> nat \<Rightarrow> nat \<Rightarrow> real) \<Rightarrow> nat \<Rightarrow> nat \<Rightarrow> nat \<Rightarrow> DenseMatrix" where
  "Jpt D1D B1d G1d J X e qy qx =
     (let GXh = (\<lambda>i j. GXh_p D1D B1d G1d X e qy qx (i + 2 * j))
      in Mult GXh (Jrt J))"

text \<open>
  The body of the loops over \<open>r\<close> and \<open>c\<close> at one quadrature point. \<^verbatim>\<open>dP\<close> is the 2x2 view
  of \<^verbatim>\<open>&P(0,0,r,c,qx,qy,e)\<close>: \<^verbatim>\<open>Dim2Invariant1_dMdM\<close> assigns its four entries and
  \<^verbatim>\<open>dP *= sign * 0.5 * weight_detJtr\<close> scales them in place; they live in \<open>P\<close> at
  \<open>offset7 \<dots> rr cc r c qx qy e\<close>. Then the four inner loops add into \<open>G\<close>.
\<close>

definition dP_scaled :: "DenseMatrix \<Rightarrow> real \<Rightarrow> nat \<Rightarrow> nat \<Rightarrow> DenseMatrix" where
  "dP_scaled Jp weight_detJtr r c =
     (let sign = (if Det Jp < 0 then - 1 else 1)
      in (\<lambda>rr cc. Dim2Invariant1_dMdM Jp r c rr cc * (sign * 0.5 * weight_detJtr)))"

definition store_dP :: "nat \<Rightarrow> vec \<Rightarrow> nat \<Rightarrow> nat \<Rightarrow> nat \<Rightarrow> nat \<Rightarrow> nat \<Rightarrow> DenseMatrix \<Rightarrow> vec" where
  "store_dP Q1D P r c qx qy e dP =
     for_loop 2 (\<lambda>rr. for_loop 2 (\<lambda>cc P.
        P(offset7 2 2 2 2 Q1D Q1D rr cc r c qx qy e := dP rr cc))) P"

definition add_G :: "nat \<Rightarrow> nat \<Rightarrow> vec \<Rightarrow> nat \<Rightarrow> nat \<Rightarrow> nat \<Rightarrow> nat \<Rightarrow> nat \<Rightarrow>
    DenseMatrix \<Rightarrow> DenseMatrix \<Rightarrow> vec" where
  "add_G Q1D dof G r c qx qy e dS dP =
     for_loop 2 (\<lambda>rr. for_loop 2 (\<lambda>cc.
        let dp = dP rr cc
        in for_loop dof (\<lambda>i. for_loop dof (\<lambda>j G.
             let ds = dS i c * dS j cc;
                 a = offset5 Q1D Q1D (dof * 2) (dof * 2) qx qy (i + r * dof) (j + rr * dof) e
             in G(a := G a + ds * dp))))) G"

definition SetupGradPA_2D :: "nat \<Rightarrow> nat \<Rightarrow> vec \<Rightarrow> nat \<Rightarrow> vec \<Rightarrow> vec \<Rightarrow> vec \<Rightarrow> DenseMatrix \<Rightarrow>
    vec \<Rightarrow> vec \<Rightarrow> vec \<times> vec" where
  "SetupGradPA_2D D1D Q1D xe NE w b1d g1d Jtr p g =
     (let dof = D1D * D1D;
          W = Reshape2 w Q1D Q1D;
          B1d = Reshape2 b1d Q1D D1D;
          G1d = Reshape2 g1d Q1D D1D;
          X = Reshape4 xe D1D D1D 2 NE
      in for_loop NE (\<lambda>e. for_loop Q1D (\<lambda>qy. for_loop Q1D (\<lambda>qx.
           let weight = W qx qy;
               detJtr = Jtr 0 0 * Jtr 1 1 - Jtr 0 1 * Jtr 1 0;
               weight_detJtr = weight * detJtr;
               dS = DS D1D B1d G1d Jtr qy qx;
               Jp = Jpt D1D B1d G1d Jtr X e qy qx
           in for_loop 2 (\<lambda>r. for_loop 2 (\<lambda>c (P, G).
                let dP = dP_scaled Jp weight_detJtr r c
                in (store_dP Q1D P r c qx qy e dP,
                    add_G Q1D dof G r c qx qy e dS dP)))))) (p, g))"

section \<open>The apply kernel\<close>

text \<open>\<^verbatim>\<open>A = hX Jrt\<close> at a quadrature point.\<close>

definition Apply_A :: "nat \<Rightarrow> (nat \<Rightarrow> nat \<Rightarrow> real) \<Rightarrow> (nat \<Rightarrow> nat \<Rightarrow> real) \<Rightarrow> DenseMatrix \<Rightarrow>
    (nat \<Rightarrow> nat \<Rightarrow> nat \<Rightarrow> nat \<Rightarrow> real) \<Rightarrow> nat \<Rightarrow> nat \<Rightarrow> nat \<Rightarrow> vec" where
  "Apply_A D1D B1d G1d J X e qy qx = kernels_Mult2 (GXh_p D1D B1d G1d X e qy qx) (Jrt_p J)"

text \<open>\<^verbatim>\<open>B = A : dP\<close>: the entry \<^verbatim>\<open>B[r+2*c]\<close> is set to zero and accumulated over \<open>i\<close> and
  \<open>j\<close>.\<close>

definition Apply_B :: "(nat \<Rightarrow> nat \<Rightarrow> nat \<Rightarrow> nat \<Rightarrow> nat \<Rightarrow> nat \<Rightarrow> nat \<Rightarrow> real) \<Rightarrow> vec \<Rightarrow>
    nat \<Rightarrow> nat \<Rightarrow> nat \<Rightarrow> vec" where
  "Apply_B dP A e qy qx =
     (let Brc = (\<lambda>r c. for_loop 2 (\<lambda>i. for_loop 2 (\<lambda>j u.
                   u + dP i j r c qx qy e * A (i + 2 * j))) 0)
      in arr4 (Brc 0 0) (Brc 1 0) (Brc 0 1) (Brc 1 1))"

text \<open>\<^verbatim>\<open>C = Jrt . B\<close> by \<^verbatim>\<open>kernels::MultABt\<close>.\<close>

definition Apply_C :: "nat \<Rightarrow> (nat \<Rightarrow> nat \<Rightarrow> real) \<Rightarrow> (nat \<Rightarrow> nat \<Rightarrow> real) \<Rightarrow> DenseMatrix \<Rightarrow>
    (nat \<Rightarrow> nat \<Rightarrow> nat \<Rightarrow> nat \<Rightarrow> nat \<Rightarrow> nat \<Rightarrow> nat \<Rightarrow> real) \<Rightarrow>
    (nat \<Rightarrow> nat \<Rightarrow> nat \<Rightarrow> nat \<Rightarrow> real) \<Rightarrow> nat \<Rightarrow> nat \<Rightarrow> nat \<Rightarrow> vec" where
  "Apply_C D1D B1d G1d J dP X e qy qx =
     kernels_MultABt2 (Jrt_p J) (Apply_B dP (Apply_A D1D B1d G1d J X e qy qx) e qy qx)"

text \<open>
  The backward passes for one node \<open>(dx, dy)\<close> of element \<open>e\<close>: the sums \<^verbatim>\<open>u[0] + v[0]\<close>
  and \<^verbatim>\<open>u[1] + v[1]\<close> that are added to \<^verbatim>\<open>Y(dx,dy,0,e)\<close> and \<^verbatim>\<open>Y(dx,dy,1,e)\<close>.
\<close>

definition Apply_uv :: "nat \<Rightarrow> nat \<Rightarrow> (nat \<Rightarrow> nat \<Rightarrow> real) \<Rightarrow> (nat \<Rightarrow> nat \<Rightarrow> real) \<Rightarrow> DenseMatrix \<Rightarrow>
    (nat \<Rightarrow> nat \<Rightarrow> nat \<Rightarrow> nat \<Rightarrow> nat \<Rightarrow> nat \<Rightarrow> nat \<Rightarrow> real) \<Rightarrow>
    (nat \<Rightarrow> nat \<Rightarrow> nat \<Rightarrow> nat \<Rightarrow> real) \<Rightarrow> nat \<Rightarrow> nat \<Rightarrow> nat \<Rightarrow> real \<times> real" where
  "Apply_uv D1D Q1D b g J dP X e dy dx =
     (let C = Apply_C D1D b g J dP X e;
          Cx0 = (\<lambda>qy qx. C qy qx 0);
          Cy0 = (\<lambda>qy qx. C qy qx 2);
          Cx1 = (\<lambda>qy qx. C qy qx 1);
          Cy1 = (\<lambda>qy qx. C qy qx 3);
          B1dt = (\<lambda>d q. b q d);
          G1dt = (\<lambda>d q. g q d);
          CxB = (\<lambda>dx qy. for_loop Q1D (\<lambda>qx u. u + G1dt dx qx * Cx0 qy qx) 0);
          CxG = (\<lambda>dx qy. for_loop Q1D (\<lambda>qx v. v + B1dt dx qx * Cx1 qy qx) 0);
          CyB = (\<lambda>dx qy. for_loop Q1D (\<lambda>qx u. u + G1dt dx qx * Cy0 qy qx) 0);
          CyG = (\<lambda>dx qy. for_loop Q1D (\<lambda>qx v. v + B1dt dx qx * Cy1 qy qx) 0);
          u0 = for_loop Q1D (\<lambda>qy u. u + CxB dx qy * B1dt dy qy) 0;
          v0 = for_loop Q1D (\<lambda>qy v. v + CxG dx qy * G1dt dy qy) 0;
          u1 = for_loop Q1D (\<lambda>qy u. u + CyB dx qy * B1dt dy qy) 0;
          v1 = for_loop Q1D (\<lambda>qy v. v + CyG dx qy * G1dt dy qy) 0
      in (u0 + v0, u1 + v1))"

definition AddMultGradPA_Kernel_2D :: "nat \<Rightarrow> nat \<Rightarrow> nat \<Rightarrow> vec \<Rightarrow> vec \<Rightarrow> DenseMatrix \<Rightarrow>
    vec \<Rightarrow> vec \<Rightarrow> vec \<Rightarrow> vec" where
  "AddMultGradPA_Kernel_2D D1D Q1D NE b1d g1d Jtr p x y =
     (let b = Reshape2 b1d Q1D D1D;
          g = Reshape2 g1d Q1D D1D;
          X = Reshape4 x D1D D1D 2 NE;
          dP = Reshape7 p 2 2 2 2 Q1D Q1D NE
      in for_loop NE (\<lambda>e. for_loop D1D (\<lambda>dy. for_loop D1D (\<lambda>dx Y.
           let (s0, s1) = Apply_uv D1D Q1D b g Jtr dP X e dy dx;
               a0 = offset4 D1D D1D 2 dx dy 0 e;
               a1 = offset4 D1D D1D 2 dx dy 1 e;
               Y1 = Y(a0 := Y a0 + s0)
           in Y1(a1 := Y1 a1 + s1)))) y)"

section \<open>Dispatch and cache\<close>

text \<open>
  The members of \<^verbatim>\<open>TMOP_Integrator\<close> that \<^verbatim>\<open>AddMultGradPA\<close> uses. \<open>IntRule\<close> is the
  pointer to the integration rule, \<open>None\<close> when null, otherwise its weights. \<open>ndof\<close> and
  \<open>nqpt\<close> are \<^verbatim>\<open>maps->ndof\<close> and \<^verbatim>\<open>maps->nqpt\<close> (C \<^verbatim>\<open>int\<close>), \<open>geom_Jtr\<close> is
  \<^verbatim>\<open>Geometries.GetGeomToPerfGeomJac(geom_type)\<close> of the first element. \<open>setup_flag\<close> is the
  member \<^verbatim>\<open>setup\<close> (renamed: the word is reserved in Isabelle). \<open>setup_launches\<close> is
  not a member: it counts the launches of the setup kernel, the invocation counter that a test
  would add.
\<close>

record TMOP_Integrator =
  IntRule :: "vec option"
  ndof :: "32 word"
  nqpt :: "32 word"
  maps_B :: vec
  maps_G :: vec
  ne :: nat
  geom_Jtr :: DenseMatrix
  setup_flag :: bool
  dPpa :: vec
  Gpa :: vec
  setup_launches :: nat

text \<open>\<^verbatim>\<open>MFEM_VERIFY\<close> and \<^verbatim>\<open>MFEM_ABORT\<close> end the program.\<close>

datatype error = Verify_IntRule | Verify_Jtr_Det | Verify_Jtr_identity | Unknown_kernel

text \<open>\<^verbatim>\<open>const int id = (D1D << 4 ) | Q1D\<close>.\<close>

definition kernel_id :: "32 word \<Rightarrow> 32 word \<Rightarrow> 32 word" where
  "kernel_id D1D Q1D = push_bit 4 D1D OR Q1D"

text \<open>
  The two \<^verbatim>\<open>switch (id)\<close> statements list the same twenty cases, \<^verbatim>\<open>0x21\<close> to
  \<^verbatim>\<open>0x55\<close>; case \<^verbatim>\<open>0xdq\<close> instantiates the kernel templates with
  \<^verbatim>\<open><d,q,1>\<close>. \<open>None\<close> is the \<^verbatim>\<open>default\<close> branch. The
  variable \<^verbatim>\<open>id\<close> of the source is \<open>kid\<close> here.
\<close>

definition specialization :: "32 word \<Rightarrow> (nat \<times> nat) option" where
  "specialization kid =
     (if kid = 0x21 then Some (2, 1) else if kid = 0x22 then Some (2, 2)
      else if kid = 0x23 then Some (2, 3) else if kid = 0x24 then Some (2, 4)
      else if kid = 0x25 then Some (2, 5)
      else if kid = 0x31 then Some (3, 1) else if kid = 0x32 then Some (3, 2)
      else if kid = 0x33 then Some (3, 3) else if kid = 0x34 then Some (3, 4)
      else if kid = 0x35 then Some (3, 5)
      else if kid = 0x41 then Some (4, 1) else if kid = 0x42 then Some (4, 2)
      else if kid = 0x43 then Some (4, 3) else if kid = 0x44 then Some (4, 4)
      else if kid = 0x45 then Some (4, 5)
      else if kid = 0x51 then Some (5, 1) else if kid = 0x52 then Some (5, 2)
      else if kid = 0x53 then Some (5, 3) else if kid = 0x54 then Some (5, 4)
      else if kid = 0x55 then Some (5, 5)
      else None)"

text \<open>The block \<^verbatim>\<open>if (!setup) { Gpa = 0.0; setup = true; switch (id) \<dots> }\<close>.\<close>

definition setup_block :: "TMOP_Integrator \<Rightarrow> vec \<Rightarrow> vec \<Rightarrow> 32 word \<Rightarrow> error + TMOP_Integrator" where
  "setup_block st W Xe kid =
     (if \<not> setup_flag st then
        (case specialization kid of
           None \<Rightarrow> Inl Unknown_kernel
         | Some (d, q) \<Rightarrow>
             let (P, G) = SetupGradPA_2D d q Xe (ne st) W (maps_B st) (maps_G st)
                            (geom_Jtr st) (dPpa st) (\<lambda>k. 0)
             in Inr (st\<lparr>setup_flag := True, dPpa := P, Gpa := G,
                       setup_launches := setup_launches st + 1\<rparr>))
      else Inr st)"

definition AddMultGradPA :: "TMOP_Integrator \<Rightarrow> vec \<Rightarrow> vec \<Rightarrow> vec \<Rightarrow>
    error + (TMOP_Integrator \<times> vec)" where
  "AddMultGradPA st Xe R_e Ce =
     (case IntRule st of
        None \<Rightarrow> Inl Verify_IntRule
      | Some W \<Rightarrow>
          let kid = kernel_id (ndof st) (nqpt st);
              Jtr = geom_Jtr st
          in if Det Jtr \<noteq> 1 then Inl Verify_Jtr_Det
             else if \<not> (Jtr 0 0 = 1 \<and> Jtr 1 1 = 1 \<and> Jtr 1 0 = 0 \<and> Jtr 0 1 = 0)
               then Inl Verify_Jtr_identity
             else
               (case setup_block st W Xe kid of
                  Inl err \<Rightarrow> Inl err
                | Inr st1 \<Rightarrow>
                    (case specialization kid of
                       None \<Rightarrow> Inl Unknown_kernel
                     | Some (d, q) \<Rightarrow>
                         Inr (st1, AddMultGradPA_Kernel_2D d q (ne st1) (maps_B st1) (maps_G st1)
                                     Jtr (dPpa st1) R_e Ce))))"

text \<open>A sequence of calls on one integrator, each with its \<^verbatim>\<open>(Xe, Re, Ce)\<close>
  (\<open>R_e\<close> here); an abort ends
  the run. The outputs are collected in call order.\<close>

fun AddMultGradPA_calls :: "TMOP_Integrator \<Rightarrow> (vec \<times> vec \<times> vec) list \<Rightarrow>
    error + (TMOP_Integrator \<times> vec list)" where
  "AddMultGradPA_calls st [] = Inr (st, [])"
| "AddMultGradPA_calls st ((Xe, R_e, Ce) # cs) =
     (case AddMultGradPA st Xe R_e Ce of
        Inl err \<Rightarrow> Inl err
      | Inr (st1, out) \<Rightarrow>
          (case AddMultGradPA_calls st1 cs of
             Inl err \<Rightarrow> Inl err
           | Inr (st2, outs) \<Rightarrow> Inr (st2, out # outs)))"

section \<open>The metric invariant and its gradient\<close>

text \<open>
  The quantities that \<^verbatim>\<open>Dim2Invariant1_dMdM\<close> is compared with. \<open>dI1_dM\<close> is the gradient
  expression of the source's comment, \<^verbatim>\<open>(2 det(M) M - |M|^2 adj(M)^T) / det(M)^2\<close>, with
  \<^verbatim>\<open>adj(M)^T\<close> as \<^verbatim>\<open>Dim2Invariant2_dM\<close> computes it. \<open>I1\<close> is the invariant
  \<open>|M|^2 / det(M)\<close>. \<open>I1_spec\<close> follows the spec's words for the invariant,
  \<open>(2 det(M) |M|^2 - |M|^4) / det(M)^2\<close>. A partial derivative with respect to the entry
  \<open>(i, j)\<close> is the derivative of \<open>x \<mapsto> f (set_entry M i j x)\<close> at \<open>x = M i j\<close>.
\<close>

definition dI1_dM :: "DenseMatrix \<Rightarrow> DenseMatrix" where
  "dI1_dM M = (\<lambda>r c. (2 * Det M * M r c - FNorm2 M * Dim2Invariant2_dM M r c) / (Det M * Det M))"

definition I1 :: "DenseMatrix \<Rightarrow> real" where
  "I1 M = FNorm2 M / Det M"

definition I1_spec :: "DenseMatrix \<Rightarrow> real" where
  "I1_spec M = (2 * Det M * FNorm2 M - FNorm2 M * FNorm2 M) / (Det M * Det M)"

section \<open>The dense contraction\<close>

text \<open>
  The reference the factorized apply kernel is compared with, written from the spec's words
  (a direct, non-factorized contraction of the dense local Hessian with the trial vector), not
  from the kernel. \<open>dense_DSh\<close> is the reference-space gradient of the shape function of
  node \<open>(dx, dy)\<close> at the quadrature point \<open>(qx, qy)\<close>, \<open>dense_DS\<close> maps it through the
  inverse reference Jacobian, \<open>dense_Hessian\<close> is the block that the setup stage describes,
  \<open>DS(i,c) DS(j,cc) P[rr,cc,r,c]\<close> summed over \<open>c\<close>, \<open>cc\<close> and the quadrature points, with row
  \<open>(dx, dy, c)\<close> and column \<open>(dx', dy', c')\<close>, and \<open>dense_contraction\<close> is its product with
  the trial field \<open>R\<close>.
\<close>

definition dense_DSh :: "(nat \<Rightarrow> nat \<Rightarrow> real) \<Rightarrow> (nat \<Rightarrow> nat \<Rightarrow> real) \<Rightarrow>
    nat \<Rightarrow> nat \<Rightarrow> nat \<Rightarrow> nat \<Rightarrow> nat \<Rightarrow> real" where
  "dense_DSh b g qx qy dx dy k = (if k = 0 then g qx dx * b qy dy else b qx dx * g qy dy)"

definition dense_DS :: "(nat \<Rightarrow> nat \<Rightarrow> real) \<Rightarrow> (nat \<Rightarrow> nat \<Rightarrow> real) \<Rightarrow> DenseMatrix \<Rightarrow>
    nat \<Rightarrow> nat \<Rightarrow> nat \<Rightarrow> nat \<Rightarrow> nat \<Rightarrow> real" where
  "dense_DS b g J qx qy dx dy k = (\<Sum>m<2. dense_DSh b g qx qy dx dy m * Jrt J m k)"

definition dense_Hessian :: "nat \<Rightarrow> (nat \<Rightarrow> nat \<Rightarrow> real) \<Rightarrow> (nat \<Rightarrow> nat \<Rightarrow> real) \<Rightarrow> DenseMatrix \<Rightarrow>
    (nat \<Rightarrow> nat \<Rightarrow> nat \<Rightarrow> nat \<Rightarrow> nat \<Rightarrow> nat \<Rightarrow> nat \<Rightarrow> real) \<Rightarrow> nat \<Rightarrow>
    nat \<Rightarrow> nat \<Rightarrow> nat \<Rightarrow> nat \<Rightarrow> nat \<Rightarrow> nat \<Rightarrow> real" where
  "dense_Hessian Q1D b g J dP e dx dy c dx' dy' c' =
     (\<Sum>qy<Q1D. \<Sum>qx<Q1D. \<Sum>k<2. \<Sum>j<2.
        dense_DS b g J qx qy dx dy k * dense_DS b g J qx qy dx' dy' j * dP c' j c k qx qy e)"

definition dense_contraction :: "nat \<Rightarrow> nat \<Rightarrow> (nat \<Rightarrow> nat \<Rightarrow> real) \<Rightarrow> (nat \<Rightarrow> nat \<Rightarrow> real) \<Rightarrow>
    DenseMatrix \<Rightarrow> (nat \<Rightarrow> nat \<Rightarrow> nat \<Rightarrow> nat \<Rightarrow> nat \<Rightarrow> nat \<Rightarrow> nat \<Rightarrow> real) \<Rightarrow>
    (nat \<Rightarrow> nat \<Rightarrow> nat \<Rightarrow> nat \<Rightarrow> real) \<Rightarrow> nat \<Rightarrow> nat \<Rightarrow> nat \<Rightarrow> nat \<Rightarrow> real" where
  "dense_contraction D1D Q1D b g J dP R e dx dy c =
     (\<Sum>dy'<D1D. \<Sum>dx'<D1D. \<Sum>c'<2.
        dense_Hessian Q1D b g J dP e dx dy c dx' dy' c' * R dx' dy' c' e)"

section \<open>Concrete configurations\<close>

text \<open>
  One bilinear quadrilateral (two nodes per direction) with one quadrature point per direction:
  basis values \<open>1/2, 1/2\<close> and derivatives \<open>-1, 1\<close> at the midpoint, weight one, the identity
  as reference Jacobian, nothing cached yet.
\<close>

definition ex_Jtr :: DenseMatrix where
  "ex_Jtr = (\<lambda>i j. if i = j then 1 else 0)"

definition ex_integrator :: TMOP_Integrator where
  "ex_integrator =
     \<lparr>IntRule = Some (\<lambda>k. 1), ndof = 2, nqpt = 1,
      maps_B = (\<lambda>k. 1 / 2), maps_G = (\<lambda>k. if k = 0 then - 1 else 1),
      ne = 1, geom_Jtr = ex_Jtr,
      setup_flag = False, dPpa = (\<lambda>k. 0), Gpa = (\<lambda>k. 0), setup_launches = 0\<rparr>"

text \<open>The unit square: \<open>X(dx,dy,0) = dx\<close> and \<open>X(dx,dy,1) = dy\<close>.\<close>

definition ex_X :: vec where
  "ex_X = (\<lambda>k. if k = 1 \<or> k = 3 \<or> k = 6 \<or> k = 7 then 1 else 0)"

text \<open>The unit square flattened onto the x-axis (zero area): \<open>X(dx,dy,1) = 0\<close>.\<close>

definition ex_X_flat :: vec where
  "ex_X_flat = (\<lambda>k. if k = 1 \<or> k = 3 then 1 else 0)"

text \<open>The unit square mirrored in x (inverted): \<open>X(dx,dy,0) = 1 - dx\<close>.\<close>

definition ex_X_inverted :: vec where
  "ex_X_inverted = (\<lambda>k. if k = 0 \<or> k = 2 \<or> k = 6 \<or> k = 7 then 1 else 0)"

text \<open>A trial field: one at the first node's x-component.\<close>

definition ex_R :: vec where
  "ex_R = (\<lambda>k. if k = 0 then 1 else 0)"

text \<open>A coefficient tensor with the single entry \<open>P(0,0,0,0,0,0,0) = 1\<close>.\<close>

definition ex_P :: vec where
  "ex_P = (\<lambda>k. if k = 0 then 1 else 0)"

section \<open>Dispatch: the aborts and the cache\<close>

lemma Det_identity:
  "J 0 0 = 1 \<Longrightarrow> J 1 1 = 1 \<Longrightarrow> J 1 0 = 0 \<Longrightarrow> J 0 1 = 0 \<Longrightarrow> Det J = 1"
  by (simp add: Det_def)

lemma AddMultGradPA_null:
  "IntRule st = None \<Longrightarrow> AddMultGradPA st Xe R_e Ce = Inl Verify_IntRule"
  by (simp add: AddMultGradPA_def)

lemma AddMultGradPA_not_identity:
  "IntRule st = Some W \<Longrightarrow> Det (geom_Jtr st) = 1 \<Longrightarrow>
   \<not> (geom_Jtr st 0 0 = 1 \<and> geom_Jtr st 1 1 = 1 \<and> geom_Jtr st 1 0 = 0 \<and> geom_Jtr st 0 1 = 0) \<Longrightarrow>
   AddMultGradPA st Xe R_e Ce = Inl Verify_Jtr_identity"
  by (simp add: AddMultGradPA_def Let_def)

text \<open>A kernel id that is in neither table ends in \<^verbatim>\<open>MFEM_ABORT("Unknown kernel.")\<close>, before
  the setup when nothing is cached and after the second \<^verbatim>\<open>switch\<close> otherwise.\<close>

lemma AddMultGradPA_unknown:
  "IntRule st = Some W \<Longrightarrow>
   geom_Jtr st 0 0 = 1 \<Longrightarrow> geom_Jtr st 1 1 = 1 \<Longrightarrow> geom_Jtr st 1 0 = 0 \<Longrightarrow> geom_Jtr st 0 1 = 0 \<Longrightarrow>
   specialization (kernel_id (ndof st) (nqpt st)) = None \<Longrightarrow>
   AddMultGradPA st Xe R_e Ce = Inl Unknown_kernel"
  by (simp add: AddMultGradPA_def Let_def Det_identity setup_block_def split: sum.splits)

text \<open>The first call of a supported configuration: setup, then apply.\<close>

lemma AddMultGradPA_first:
  "IntRule st = Some W \<Longrightarrow>
   geom_Jtr st 0 0 = 1 \<Longrightarrow> geom_Jtr st 1 1 = 1 \<Longrightarrow> geom_Jtr st 1 0 = 0 \<Longrightarrow> geom_Jtr st 0 1 = 0 \<Longrightarrow>
   specialization (kernel_id (ndof st) (nqpt st)) = Some (d, q) \<Longrightarrow>
   \<not> setup_flag st \<Longrightarrow>
   SetupGradPA_2D d q Xe (ne st) W (maps_B st) (maps_G st) (geom_Jtr st) (dPpa st) (\<lambda>k. 0) = (P, G) \<Longrightarrow>
   AddMultGradPA st Xe R_e Ce =
     Inr (st\<lparr>setup_flag := True, dPpa := P, Gpa := G, setup_launches := setup_launches st + 1\<rparr>,
          AddMultGradPA_Kernel_2D d q (ne st) (maps_B st) (maps_G st) (geom_Jtr st) P R_e Ce)"
  by (simp add: AddMultGradPA_def Let_def Det_identity setup_block_def)

text \<open>A later call: apply only, on the cached tensor; the integrator is unchanged.\<close>

lemma AddMultGradPA_cached:
  "IntRule st = Some W \<Longrightarrow>
   geom_Jtr st 0 0 = 1 \<Longrightarrow> geom_Jtr st 1 1 = 1 \<Longrightarrow> geom_Jtr st 1 0 = 0 \<Longrightarrow> geom_Jtr st 0 1 = 0 \<Longrightarrow>
   specialization (kernel_id (ndof st) (nqpt st)) = Some (d, q) \<Longrightarrow>
   setup_flag st \<Longrightarrow>
   AddMultGradPA st Xe R_e Ce =
     Inr (st, AddMultGradPA_Kernel_2D d q (ne st) (maps_B st) (maps_G st) (geom_Jtr st) (dPpa st) R_e Ce)"
  by (simp add: AddMultGradPA_def Let_def Det_identity setup_block_def)

lemma AddMultGradPA_returns:
  assumes "IntRule st = Some W"
    and "geom_Jtr st 0 0 = 1" "geom_Jtr st 1 1 = 1" "geom_Jtr st 1 0 = 0" "geom_Jtr st 0 1 = 0"
    and "specialization (kernel_id (ndof st) (nqpt st)) = Some (d, q)"
  shows "\<exists>st1 out. AddMultGradPA st Xe R_e Ce = Inr (st1, out)"
proof (cases "setup_flag st")
  case True
  then show ?thesis using AddMultGradPA_cached [OF assms] by blast
next
  case False
  obtain P G where "SetupGradPA_2D d q Xe (ne st) W (maps_B st) (maps_G st) (geom_Jtr st)
      (dPpa st) (\<lambda>k. 0) = (P, G)"
    by (cases "SetupGradPA_2D d q Xe (ne st) W (maps_B st) (maps_G st) (geom_Jtr st)
      (dPpa st) (\<lambda>k. 0)") auto
  then show ?thesis using AddMultGradPA_first [OF assms False] by blast
qed

lemma calls_cached:
  assumes "IntRule st = Some W"
    and "geom_Jtr st 0 0 = 1" "geom_Jtr st 1 1 = 1" "geom_Jtr st 1 0 = 0" "geom_Jtr st 0 1 = 0"
    and "specialization (kernel_id (ndof st) (nqpt st)) = Some (d, q)"
    and "setup_flag st"
  shows "AddMultGradPA_calls st cs =
     Inr (st, map (\<lambda>(X', R', C'). AddMultGradPA_Kernel_2D d q (ne st) (maps_B st) (maps_G st)
                                  (geom_Jtr st) (dPpa st) R' C') cs)"
proof (induction cs)
  case Nil
  show ?case by simp
next
  case (Cons c cs)
  obtain X' R' C' where c: "c = (X', R', C')" by (cases c) auto
  show ?case
    unfolding c by (simp add: AddMultGradPA_cached [OF assms] Cons.IH)
qed

lemma ex_integrator_simps:
  "IntRule ex_integrator = Some (\<lambda>k. 1)" "ndof ex_integrator = 2" "nqpt ex_integrator = 1"
  "ne ex_integrator = 1" "geom_Jtr ex_integrator = ex_Jtr" "setup_flag ex_integrator = False"
  "setup_launches ex_integrator = 0"
  by (simp_all add: ex_integrator_def)

lemma ex_integrator_supported:
  "IntRule ex_integrator = Some (\<lambda>k. 1)"
  "geom_Jtr ex_integrator 0 0 = 1" "geom_Jtr ex_integrator 1 1 = 1"
  "geom_Jtr ex_integrator 1 0 = 0" "geom_Jtr ex_integrator 0 1 = 0"
  "specialization (kernel_id (ndof ex_integrator) (nqpt ex_integrator)) = Some (2, 1)"
  by (simp_all add: ex_integrator_def ex_Jtr_def kernel_id_def specialization_def)

lemma Jrt_ex_Jtr: "Jrt ex_Jtr 0 0 = 1" "Jrt ex_Jtr 1 1 = 1" "Jrt ex_Jtr 1 0 = 0" "Jrt ex_Jtr 0 1 = 0"
  by (simp_all add: Jrt_def Jrt_p_def Jtr_p_def CalcInverse2_def ex_Jtr_def arr4_def)

lemma GXh_p_flat:
  "GXh_p 2 (Reshape2 (maps_B ex_integrator) 1 2) (Reshape2 (maps_G ex_integrator) 1 2)
     (Reshape4 ex_X_flat 2 2 2 1) 0 0 0 = arr4 1 0 0 0"
  by (simp add: GXh_p_def XB_def XG_def X0_def X1_def numeral_2_eq_2 Reshape4_def offset4_def
      ex_X_flat_def Reshape2_def offset2_def ex_integrator_def)

lemma Det_Jpt_flat:
  "Det (Jpt 2 (Reshape2 (maps_B ex_integrator) 1 2) (Reshape2 (maps_G ex_integrator) 1 2)
          (geom_Jtr ex_integrator) (Reshape4 ex_X_flat 2 2 2 1) 0 0 0) = 0"
  unfolding Jpt_def GXh_p_flat Let_def Det_def Mult_def ex_integrator_simps Jrt_ex_Jtr
  by (simp add: arr4_def)

text \<open>
  When the quadrature count is below 16 (and the dof count below \<open>2^28\<close>) the two counts
  occupy separate bits of the key, the key determines the pair, and every pair outside
  \<open>{2,\<dots>,5} \<times> {1,\<dots>,5}\<close> reaches the \<^verbatim>\<open>default\<close> branch.
\<close>

lemma take_bit_small:
  fixes q :: "32 word"
  assumes "q < 16"
  shows "take_bit 4 q = q"
proof -
  have "q < 2 ^ 4" using assms by simp
  then show ?thesis by (simp only: take_bit_eq_mask less_mask_eq)
qed

lemma drop_bit_small:
  fixes q :: "32 word"
  assumes "q < 16"
  shows "drop_bit 4 q = 0"
  using take_bit_small [OF assms] by (simp only: take_bit_eq_self_iff_drop_bit_eq_0)

lemma drop_bit_push_bit_small:
  fixes d :: "32 word"
  assumes "d < 2 ^ 28"
  shows "drop_bit 4 (push_bit 4 d) = d"
proof (rule bit_word_eqI)
  fix n assume n: "n < LENGTH(32)"
  have "take_bit 28 d = d"
    using assms by (simp only: take_bit_eq_mask less_mask_eq)
  then have hi: "bit d k \<Longrightarrow> k < 28" for k
    by (metis bit_take_bit_iff)
  show "bit (drop_bit 4 (push_bit 4 d)) n = bit d n"
    using hi [of n] n by (auto simp add: bit_simps)
qed

lemma kernel_id_low:
  fixes d q :: "32 word"
  assumes "q < 16"
  shows "take_bit 4 (kernel_id d q) = q"
  by (simp add: kernel_id_def take_bit_push_bit take_bit_small [OF assms])

lemma kernel_id_high:
  fixes d q :: "32 word"
  assumes "q < 16" "d < 2 ^ 28"
  shows "drop_bit 4 (kernel_id d q) = d"
  by (simp add: kernel_id_def drop_bit_small [OF assms(1)] drop_bit_push_bit_small [OF assms(2)])

lemma id_eq:
  fixes d q a b k :: "32 word"
  assumes "q < 16" "d < 2 ^ 28"
  shows "b < 16 \<Longrightarrow> a < 2 ^ 28 \<Longrightarrow> kernel_id a b = k \<Longrightarrow> (kernel_id d q = k) = (d = a \<and> q = b)"
  using kernel_id_low [OF assms(1), of d] kernel_id_high [OF assms]
    kernel_id_low [of b a] kernel_id_high [of b a]
  by metis


lemma specialization_small_None:
  fixes d q :: "32 word"
  assumes "q < 16" "d < 2 ^ 28"
    and out: "\<not> ((d = 2 \<or> d = 3 \<or> d = 4 \<or> d = 5) \<and> (q = 1 \<or> q = 2 \<or> q = 3 \<or> q = 4 \<or> q = 5))"
  shows "specialization (kernel_id d q) = None"
proof -
  have e:
    "(kernel_id d q = 0x21) = (d = 2 \<and> q = 1)"
    "(kernel_id d q = 0x22) = (d = 2 \<and> q = 2)"
    "(kernel_id d q = 0x23) = (d = 2 \<and> q = 3)"
    "(kernel_id d q = 0x24) = (d = 2 \<and> q = 4)"
    "(kernel_id d q = 0x25) = (d = 2 \<and> q = 5)"
    "(kernel_id d q = 0x31) = (d = 3 \<and> q = 1)"
    "(kernel_id d q = 0x32) = (d = 3 \<and> q = 2)"
    "(kernel_id d q = 0x33) = (d = 3 \<and> q = 3)"
    "(kernel_id d q = 0x34) = (d = 3 \<and> q = 4)"
    "(kernel_id d q = 0x35) = (d = 3 \<and> q = 5)"
    "(kernel_id d q = 0x41) = (d = 4 \<and> q = 1)"
    "(kernel_id d q = 0x42) = (d = 4 \<and> q = 2)"
    "(kernel_id d q = 0x43) = (d = 4 \<and> q = 3)"
    "(kernel_id d q = 0x44) = (d = 4 \<and> q = 4)"
    "(kernel_id d q = 0x45) = (d = 4 \<and> q = 5)"
    "(kernel_id d q = 0x51) = (d = 5 \<and> q = 1)"
    "(kernel_id d q = 0x52) = (d = 5 \<and> q = 2)"
    "(kernel_id d q = 0x53) = (d = 5 \<and> q = 3)"
    "(kernel_id d q = 0x54) = (d = 5 \<and> q = 4)"
    "(kernel_id d q = 0x55) = (d = 5 \<and> q = 5)"
    by (rule id_eq [OF assms(1,2)]; simp add: kernel_id_def)+
  have n:
    "(d = 2 \<and> q = 1) = False"
    "(d = 2 \<and> q = 2) = False"
    "(d = 2 \<and> q = 3) = False"
    "(d = 2 \<and> q = 4) = False"
    "(d = 2 \<and> q = 5) = False"
    "(d = 3 \<and> q = 1) = False"
    "(d = 3 \<and> q = 2) = False"
    "(d = 3 \<and> q = 3) = False"
    "(d = 3 \<and> q = 4) = False"
    "(d = 3 \<and> q = 5) = False"
    "(d = 4 \<and> q = 1) = False"
    "(d = 4 \<and> q = 2) = False"
    "(d = 4 \<and> q = 3) = False"
    "(d = 4 \<and> q = 4) = False"
    "(d = 4 \<and> q = 5) = False"
    "(d = 5 \<and> q = 1) = False"
    "(d = 5 \<and> q = 2) = False"
    "(d = 5 \<and> q = 3) = False"
    "(d = 5 \<and> q = 4) = False"
    "(d = 5 \<and> q = 5) = False"
    using out by blast+
  show ?thesis
    unfolding specialization_def e n
    by (simp only: if_False)
qed

lemma AddMultGradPA_unsupported_aborts:
  assumes "IntRule st = Some W"
    and "geom_Jtr st 0 0 = 1" "geom_Jtr st 1 1 = 1" "geom_Jtr st 1 0 = 0" "geom_Jtr st 0 1 = 0"
    and "nqpt st < 16" "ndof st < 2 ^ 28"
    and "\<not> ((ndof st = 2 \<or> ndof st = 3 \<or> ndof st = 4 \<or> ndof st = 5) \<and>
            (nqpt st = 1 \<or> nqpt st = 2 \<or> nqpt st = 3 \<or> nqpt st = 4 \<or> nqpt st = 5))"
  shows "AddMultGradPA st Xe R_e Ce = Inl Unknown_kernel"
  by (rule AddMultGradPA_unknown [OF assms(1-5) specialization_small_None [OF assms(6-8)]])

text \<open>
  C6 (code defect). The claim: every pair (dofs per dimension, quadrature points per dimension)
  outside \<open>{2,\<dots>,5} \<times> {1,\<dots>,5}\<close> aborts and dispatches no kernel. The key packs the
  two counts into one integer, \<^verbatim>\<open>(D1D << 4) | Q1D\<close>, so a quadrature count of 16 or more
  spills into the bits of the dof count: for 2 dofs and 17 quadrature points the key is
  \<^verbatim>\<open>0x31\<close>, and the call runs the setup and apply kernels instantiated for 3 dofs and 1
  quadrature point instead of aborting.
\<close>

theorem colliding_kernel_id_dispatches:
  "\<exists>st1. AddMultGradPA (ex_integrator\<lparr>nqpt := 17\<rparr>) ex_X ex_R (\<lambda>k. 0) =
            Inr (st1, AddMultGradPA_Kernel_2D 3 1 1 (maps_B ex_integrator) (maps_G ex_integrator)
                        ex_Jtr (dPpa st1) ex_R (\<lambda>k. 0))
        \<and> dPpa st1 = fst (SetupGradPA_2D 3 1 ex_X 1 (\<lambda>k. 1) (maps_B ex_integrator)
                            (maps_G ex_integrator) ex_Jtr (\<lambda>k. 0) (\<lambda>k. 0))
        \<and> setup_launches st1 = 1"
proof -
  let ?st = "ex_integrator\<lparr>nqpt := 17\<rparr>"
  obtain P G where PG: "SetupGradPA_2D 3 1 ex_X (ne ?st) (\<lambda>k. 1) (maps_B ?st) (maps_G ?st)
      (geom_Jtr ?st) (dPpa ?st) (\<lambda>k. 0) = (P, G)"
    by (cases "SetupGradPA_2D 3 1 ex_X (ne ?st) (\<lambda>k. 1) (maps_B ?st) (maps_G ?st)
      (geom_Jtr ?st) (dPpa ?st) (\<lambda>k. 0)") auto
  have spec: "specialization (kernel_id (ndof ?st) (nqpt ?st)) = Some (3, 1)"
    by (simp add: ex_integrator_def kernel_id_def specialization_def)
  have J: "geom_Jtr ?st 0 0 = 1" "geom_Jtr ?st 1 1 = 1" "geom_Jtr ?st 1 0 = 0" "geom_Jtr ?st 0 1 = 0"
    by (simp_all add: ex_integrator_def ex_Jtr_def)
  have W: "IntRule ?st = Some (\<lambda>k. 1)" and flag: "\<not> setup_flag ?st"
    by (simp_all add: ex_integrator_def)
  have P: "P = fst (SetupGradPA_2D 3 1 ex_X 1 (\<lambda>k. 1) (maps_B ex_integrator)
                            (maps_G ex_integrator) ex_Jtr (\<lambda>k. 0) (\<lambda>k. 0))"
    using PG by (simp add: ex_integrator_def)
  show ?thesis
    using AddMultGradPA_first [OF W J spec flag PG, of ex_R "\<lambda>k. 0"] P
    by (simp add: ex_integrator_def)
qed

text \<open>
  C7. With the cache flag unset and a supported configuration, a run of calls launches the
  setup kernel exactly once, in the first call: the counter of the final integrator is one more
  than at the start however many calls follow, and every output, the first included, is the
  apply kernel on the tensor \<open>P\<close> that this one setup computed from the first call's nodal
  field. A further call with the same trial field and the same initial output buffer returns
  the same output and leaves the integrator as it is (no setup).
\<close>

theorem setup_once_per_cache_period:
  assumes "\<not> setup_flag st"
    and "IntRule st = Some W"
    and "geom_Jtr st 0 0 = 1" "geom_Jtr st 1 1 = 1" "geom_Jtr st 1 0 = 0" "geom_Jtr st 0 1 = 0"
    and "specialization (kernel_id (ndof st) (nqpt st)) = Some (d, q)"
    and "SetupGradPA_2D d q Xe (ne st) W (maps_B st) (maps_G st) (geom_Jtr st) (dPpa st) (\<lambda>k. 0)
           = (P, G)"
    and "st1 = st\<lparr>setup_flag := True, dPpa := P, Gpa := G,
                    setup_launches := setup_launches st + 1\<rparr>"
  shows "AddMultGradPA_calls st ((Xe, R_e, Ce) # cs) =
           Inr (st1, AddMultGradPA_Kernel_2D d q (ne st) (maps_B st) (maps_G st) (geom_Jtr st) P R_e Ce #
                     map (\<lambda>(X', R', C'). AddMultGradPA_Kernel_2D d q (ne st) (maps_B st) (maps_G st)
                                  (geom_Jtr st) P R' C') cs)
         \<and> setup_launches st1 = setup_launches st + 1
         \<and> AddMultGradPA st1 X' R_e Ce =
             Inr (st1, AddMultGradPA_Kernel_2D d q (ne st) (maps_B st) (maps_G st) (geom_Jtr st) P R_e Ce)"
proof -
  have first: "AddMultGradPA st Xe R_e Ce =
      Inr (st1, AddMultGradPA_Kernel_2D d q (ne st) (maps_B st) (maps_G st) (geom_Jtr st) P R_e Ce)"
    using AddMultGradPA_first [OF assms(2-7) assms(1) assms(8)] assms(9) by simp
  have st1: "IntRule st1 = Some W" "geom_Jtr st1 0 0 = 1" "geom_Jtr st1 1 1 = 1"
    "geom_Jtr st1 1 0 = 0" "geom_Jtr st1 0 1 = 0"
    "specialization (kernel_id (ndof st1) (nqpt st1)) = Some (d, q)" "setup_flag st1"
    using assms by simp_all
  have fields: "ne st1 = ne st" "maps_B st1 = maps_B st" "maps_G st1 = maps_G st"
    "geom_Jtr st1 = geom_Jtr st" "dPpa st1 = P"
    using assms(9) by simp_all
  have rest: "AddMultGradPA_calls st1 cs =
     Inr (st1, map (\<lambda>(X', R', C'). AddMultGradPA_Kernel_2D d q (ne st) (maps_B st) (maps_G st)
                                  (geom_Jtr st) P R' C') cs)"
    using calls_cached [OF st1, of cs] by (simp only: fields)
  have again: "AddMultGradPA st1 X' R_e Ce =
      Inr (st1, AddMultGradPA_Kernel_2D d q (ne st) (maps_B st) (maps_G st) (geom_Jtr st) P R_e Ce)"
    using AddMultGradPA_cached [OF st1, of X' R_e Ce] by (simp only: fields)
  show ?thesis
    using first rest again assms(9) by simp
qed

text \<open>C7, witness: two calls on the unit square; one setup launch, equal outputs.\<close>

theorem setup_once_per_cache_period_witness:
  "\<exists>st1 out. AddMultGradPA_calls ex_integrator [(ex_X, ex_R, \<lambda>k. 0), (ex_X, ex_R, \<lambda>k. 0)]
                 = Inr (st1, [out, out]) \<and>
      setup_launches st1 = 1 \<and> AddMultGradPA st1 ex_X ex_R (\<lambda>k. 0) = Inr (st1, out)"
proof -
  obtain P G where PG: "SetupGradPA_2D 2 1 ex_X (ne ex_integrator) (\<lambda>k. 1) (maps_B ex_integrator)
      (maps_G ex_integrator) (geom_Jtr ex_integrator) (dPpa ex_integrator) (\<lambda>k. 0) = (P, G)"
    by (cases "SetupGradPA_2D 2 1 ex_X (ne ex_integrator) (\<lambda>k. 1) (maps_B ex_integrator)
      (maps_G ex_integrator) (geom_Jtr ex_integrator) (dPpa ex_integrator) (\<lambda>k. 0)") auto
  have flag: "\<not> setup_flag ex_integrator"
    by (simp add: ex_integrator_simps)
  show ?thesis
    using setup_once_per_cache_period [OF flag ex_integrator_supported PG refl,
        of ex_R "\<lambda>k. 0" "[(ex_X, ex_R, \<lambda>k. 0)]" ex_X]
    by (simp add: ex_integrator_simps del: AddMultGradPA_calls.simps)
qed

text \<open>
  C8 (as stated, refuted). The claim: a degenerate element, \<open>det(Jpt) = 0\<close> at a quadrature
  point, aborts the computation. On the unit square flattened onto the x-axis the local
  Jacobian at the quadrature point has determinant zero, and the call returns normally.
\<close>

theorem degenerate_element_counterexample:
  "Det (Jpt 2 (Reshape2 (maps_B ex_integrator) 1 2) (Reshape2 (maps_G ex_integrator) 1 2)
          (geom_Jtr ex_integrator) (Reshape4 ex_X_flat 2 2 2 1) 0 0 0) = 0
   \<and> \<not> isl (AddMultGradPA ex_integrator ex_X_flat ex_R (\<lambda>k. 0))"
proof -
  have "\<exists>st1 out. AddMultGradPA ex_integrator ex_X_flat ex_R (\<lambda>k. 0) = Inr (st1, out)"
    by (rule AddMultGradPA_returns [OF ex_integrator_supported])
  then have "\<not> isl (AddMultGradPA ex_integrator ex_X_flat ex_R (\<lambda>k. 0))"
    by auto
  then show ?thesis
    using Det_Jpt_flat by simp
qed

text \<open>
  C8 (amended). No degeneracy check exists: whenever the integration rule is set, the
  reference Jacobian is the identity and the kernel id is in the table, the call returns, for
  every nodal field, degenerate or not. (The division by \<open>det(Jpt)^4\<close> in the setup is then a
  division by zero, which the model does not interpret.)
\<close>

theorem degenerate_element_not_checked:
  assumes "IntRule st = Some W"
    and "geom_Jtr st 0 0 = 1" "geom_Jtr st 1 1 = 1" "geom_Jtr st 1 0 = 0" "geom_Jtr st 0 1 = 0"
    and "specialization (kernel_id (ndof st) (nqpt st)) = Some (d, q)"
  shows "\<exists>st1 out. AddMultGradPA st Xe R_e Ce = Inr (st1, out)"
  by (rule AddMultGradPA_returns [OF assms])

text \<open>C8, witness: the flattened square, with \<open>det(Jpt) = 0\<close>.\<close>

theorem degenerate_element_not_checked_witness:
  "Det (Jpt 2 (Reshape2 (maps_B ex_integrator) 1 2) (Reshape2 (maps_G ex_integrator) 1 2)
          (geom_Jtr ex_integrator) (Reshape4 ex_X_flat 2 2 2 1) 0 0 0) = 0
   \<and> (\<exists>st1 out. AddMultGradPA ex_integrator ex_X_flat ex_R (\<lambda>k. 0) = Inr (st1, out))"
  using degenerate_element_not_checked [OF ex_integrator_supported, of ex_X_flat ex_R "\<lambda>k. 0"]
    Det_Jpt_flat
  by simp

text \<open>
  C9. \<^verbatim>\<open>MFEM_VERIFY(Jtr.Det() == 1.0, "")\<close>: a reference Jacobian whose determinant is not
  one ends the call in a failed verification (of the determinant, or of the integration rule
  pointer, which is checked first).
\<close>

theorem reference_Jacobian_det_verified:
  "Det (geom_Jtr st) \<noteq> 1 \<Longrightarrow>
   AddMultGradPA st Xe R_e Ce =
     (case IntRule st of None \<Rightarrow> Inl Verify_IntRule | Some W \<Rightarrow> Inl Verify_Jtr_Det)"
  by (simp add: AddMultGradPA_def Let_def split: option.splits)

text \<open>C9, witness: twice the identity, determinant four.\<close>

theorem reference_Jacobian_det_verified_witness:
  "Det (geom_Jtr (ex_integrator\<lparr>geom_Jtr := (\<lambda>i j. if i = j then 2 else 0)\<rparr>)) \<noteq> 1 \<and>
   AddMultGradPA (ex_integrator\<lparr>geom_Jtr := (\<lambda>i j. if i = j then 2 else 0)\<rparr>) ex_X ex_R (\<lambda>k. 0)
     = Inl Verify_Jtr_Det"
  using reference_Jacobian_det_verified
    [of "ex_integrator\<lparr>geom_Jtr := (\<lambda>i j. if i = j then 2 else 0)\<rparr>" ex_X ex_R "\<lambda>k. 0"]
  by (simp add: Det_def ex_integrator_def)

text \<open>
  C10. Every call verifies that the reference Jacobian is exactly the identity and aborts
  otherwise. This is stronger than a unit determinant: a rotation \<open>(c, -s; s, c)\<close> other
  than the identity has determinant one, passes the first verification and fails the second.
\<close>

theorem reference_Jacobian_identity_verified:
  "(\<not> (geom_Jtr st 0 0 = 1 \<and> geom_Jtr st 1 1 = 1 \<and> geom_Jtr st 1 0 = 0 \<and> geom_Jtr st 0 1 = 0)
      \<longrightarrow> isl (AddMultGradPA st Xe R_e Ce))
   \<and> (IntRule st \<noteq> None \<and> geom_Jtr st 0 0 = c \<and> geom_Jtr st 0 1 = - s \<and> geom_Jtr st 1 0 = s \<and>
        geom_Jtr st 1 1 = c \<and> c * c + s * s = 1 \<and> c \<noteq> 1
      \<longrightarrow> Det (geom_Jtr st) = 1 \<and> AddMultGradPA st Xe R_e Ce = Inl Verify_Jtr_identity)"
proof (intro conjI impI)
  assume "\<not> (geom_Jtr st 0 0 = 1 \<and> geom_Jtr st 1 1 = 1 \<and> geom_Jtr st 1 0 = 0 \<and> geom_Jtr st 0 1 = 0)"
  then show "isl (AddMultGradPA st Xe R_e Ce)"
    by (simp add: AddMultGradPA_def Let_def split: option.splits)
next
  assume a: "IntRule st \<noteq> None \<and> geom_Jtr st 0 0 = c \<and> geom_Jtr st 0 1 = - s \<and>
    geom_Jtr st 1 0 = s \<and> geom_Jtr st 1 1 = c \<and> c * c + s * s = 1 \<and> c \<noteq> 1"
  then show "Det (geom_Jtr st) = 1"
    by (simp add: Det_def)
next
  assume a: "IntRule st \<noteq> None \<and> geom_Jtr st 0 0 = c \<and> geom_Jtr st 0 1 = - s \<and>
    geom_Jtr st 1 0 = s \<and> geom_Jtr st 1 1 = c \<and> c * c + s * s = 1 \<and> c \<noteq> 1"
  then obtain W where W: "IntRule st = Some W" by auto
  have d: "Det (geom_Jtr st) = 1" using a by (simp add: Det_def)
  show "AddMultGradPA st Xe R_e Ce = Inl Verify_Jtr_identity"
    by (rule AddMultGradPA_not_identity [OF W d]) (use a in simp)
qed

text \<open>C10, witness: the rotation by a half turn, minus the identity.\<close>

theorem reference_Jacobian_identity_verified_witness:
  "Det (geom_Jtr (ex_integrator\<lparr>geom_Jtr := (\<lambda>i j. if i = j then - 1 else 0)\<rparr>)) = 1 \<and>
   AddMultGradPA (ex_integrator\<lparr>geom_Jtr := (\<lambda>i j. if i = j then - 1 else 0)\<rparr>) ex_X ex_R (\<lambda>k. 0)
     = Inl Verify_Jtr_identity \<and>
   isl (AddMultGradPA (ex_integrator\<lparr>geom_Jtr := (\<lambda>i j. if i = j then - 1 else 0)\<rparr>) ex_X ex_R (\<lambda>k. 0))"
  using reference_Jacobian_identity_verified
    [of "ex_integrator\<lparr>geom_Jtr := (\<lambda>i j. if i = j then - 1 else 0)\<rparr>" ex_X ex_R "\<lambda>k. 0" "- 1" 0]
  by (simp add: ex_integrator_def)

section \<open>The apply kernel\<close>

subsection \<open>Loops and offsets\<close>

text \<open>An accumulation loop is a sum; a loop that adds to cells of a buffer adds, at each
  address, the sum of what its iterations add there.\<close>

lemma for_loop_sum: "for_loop n (\<lambda>i u. u + f i) u0 = u0 + (\<Sum>i<n. f i :: real)"
  by (induction n) simp_all

lemma for_loop_delta:
  assumes "\<And>i s. i < n \<Longrightarrow> body i s a = s a + \<delta> i"
  shows "for_loop n body s a = s a + (\<Sum>i<n. \<delta> i :: real)"
  using assms by (induction n) simp_all

lemma offset_inj:
  fixes i j i' j' n :: nat
  assumes "i < n" "i' < n"
  shows "(i + n * j = i' + n * j') = (i = i' \<and> j = j')"
proof
  assume eq: "i + n * j = i' + n * j'"
  have "(i + n * j) mod n = (i' + n * j') mod n" using eq by simp
  then have i: "i = i'" using assms by simp
  have "(i + n * j) div n = (i' + n * j') div n" using eq by simp
  then have "j = j'" using assms by simp
  with i show "i = i' \<and> j = j'" by simp
qed simp

lemma offset4_inj:
  assumes "i < n0" "i' < n0" "j < n1" "j' < n1" "k < n2" "k' < n2"
  shows "(offset4 n0 n1 n2 i j k l = offset4 n0 n1 n2 i' j' k' l') =
         (i = i' \<and> j = j' \<and> k = k' \<and> l = l')"
  unfolding offset4_def
  by (simp add: offset_inj assms)

lemma offset4_less:
  assumes "i < n0" "j < n1" "k < n2" "l < n3"
  shows "offset4 n0 n1 n2 i j k l < n0 * (n1 * (n2 * n3))"
proof -
  have 1: "k + n2 * l < n2 * n3"
  proof -
    have "k + n2 * l < n2 + n2 * l" using assms by simp
    also have "\<dots> = n2 * Suc l" by simp
    also have "\<dots> \<le> n2 * n3" using assms by (intro mult_le_mono2) simp
    finally show ?thesis .
  qed
  have 2: "j + n1 * (k + n2 * l) < n1 * (n2 * n3)"
  proof -
    have "j + n1 * (k + n2 * l) < n1 + n1 * (k + n2 * l)" using assms by simp
    also have "\<dots> = n1 * Suc (k + n2 * l)" by simp
    also have "\<dots> \<le> n1 * (n2 * n3)" using 1 by (intro mult_le_mono2) simp
    finally show ?thesis .
  qed
  have "i + n0 * (j + n1 * (k + n2 * l)) < n0 + n0 * (j + n1 * (k + n2 * l))" using assms by simp
  also have "\<dots> = n0 * Suc (j + n1 * (k + n2 * l))" by simp
  also have "\<dots> \<le> n0 * (n1 * (n2 * n3))" using 2 by (intro mult_le_mono2) simp
  finally show ?thesis by (simp add: offset4_def)
qed

lemma sum_if_eq:
  "(\<Sum>i<n::nat. if i = k \<and> P then f i else 0) = (if k < n \<and> P then f k else (0::real))"
  by (cases P) (simp_all add: sum.delta)

lemma sum_2: "(\<Sum>k<(2::nat). f k) = f 0 + (f 1 :: real)"
  by (simp add: numeral_2_eq_2)

lemma for_loop_2: "for_loop 2 body s = body 1 (body 0 s)"
  by (simp add: numeral_2_eq_2)

lemma arr4_simps: "arr4 a0 a1 a2 a3 0 = a0" "arr4 a0 a1 a2 a3 1 = a1"
  "arr4 a0 a1 a2 a3 2 = a2" "arr4 a0 a1 a2 a3 3 = a3"
  by (simp_all add: arr4_def)

lemma Jrt_entries: "Jrt J 0 0 = Jrt_p J 0" "Jrt J 1 0 = Jrt_p J 1"
  "Jrt J 0 1 = Jrt_p J 2" "Jrt J 1 1 = Jrt_p J 3"
  by (simp_all add: Jrt_def)

subsection \<open>What the kernel adds at each address\<close>

lemma Kernel_closed:
  "AddMultGradPA_Kernel_2D D1D Q1D NE b1d g1d Jtr p x y a =
     y a + (\<Sum>e<NE. \<Sum>dy<D1D. \<Sum>dx<D1D.
       (if a = offset4 D1D D1D 2 dx dy 0 e
        then fst (Apply_uv D1D Q1D (Reshape2 b1d Q1D D1D) (Reshape2 g1d Q1D D1D) Jtr
                    (Reshape7 p 2 2 2 2 Q1D Q1D NE) (Reshape4 x D1D D1D 2 NE) e dy dx) else 0) +
       (if a = offset4 D1D D1D 2 dx dy 1 e
        then snd (Apply_uv D1D Q1D (Reshape2 b1d Q1D D1D) (Reshape2 g1d Q1D D1D) Jtr
                    (Reshape7 p 2 2 2 2 Q1D Q1D NE) (Reshape4 x D1D D1D 2 NE) e dy dx) else 0))"
  unfolding AddMultGradPA_Kernel_2D_def Let_def
  apply (rule for_loop_delta)
  apply (rule for_loop_delta)
  apply (rule for_loop_delta)
  apply (simp add: case_prod_beta)
  done

lemma offset4_sum_collapse:
  fixes F :: "nat \<Rightarrow> nat \<Rightarrow> nat \<Rightarrow> real"
  assumes "dx < D" "dy < D" "c < 2" "c' < 2"
  shows "(\<Sum>e'<NE. \<Sum>dy'<D. \<Sum>dx'<D.
            if offset4 D D 2 dx dy c e = offset4 D D 2 dx' dy' c' e' then F e' dy' dx' else 0) =
         (if c = c' \<and> e < NE then F e dy dx else 0)"
proof -
  have "(\<Sum>e'<NE. \<Sum>dy'<D. \<Sum>dx'<D.
            if offset4 D D 2 dx dy c e = offset4 D D 2 dx' dy' c' e' then F e' dy' dx' else 0) =
        (\<Sum>e'<NE. \<Sum>dy'<D. \<Sum>dx'<D.
            if dx' = dx \<and> (dy' = dy \<and> c = c' \<and> e' = e) then F e' dy' dx' else 0)"
    by (intro sum.cong refl) (auto simp add: offset4_inj assms)
  also have "\<dots> = (\<Sum>e'<NE. \<Sum>dy'<D. if dy' = dy \<and> (c = c' \<and> e' = e) then F e' dy' dx else 0)"
    by (simp add: sum_if_eq assms)
  also have "\<dots> = (\<Sum>e'<NE. if e' = e \<and> c = c' then F e' dy dx else 0)"
    by (simp add: sum_if_eq assms conj_commute)
  also have "\<dots> = (if c = c' \<and> e < NE then F e dy dx else 0)"
    by (simp add: sum_if_eq conj_commute)
  finally show ?thesis .
qed

lemma Kernel_at_node:
  assumes "dx < D1D" "dy < D1D" "c < 2" "e < NE"
  shows "AddMultGradPA_Kernel_2D D1D Q1D NE b1d g1d Jtr p x y (offset4 D1D D1D 2 dx dy c e) =
     y (offset4 D1D D1D 2 dx dy c e) +
       (if c = 0
        then fst (Apply_uv D1D Q1D (Reshape2 b1d Q1D D1D) (Reshape2 g1d Q1D D1D) Jtr
                    (Reshape7 p 2 2 2 2 Q1D Q1D NE) (Reshape4 x D1D D1D 2 NE) e dy dx)
        else snd (Apply_uv D1D Q1D (Reshape2 b1d Q1D D1D) (Reshape2 g1d Q1D D1D) Jtr
                    (Reshape7 p 2 2 2 2 Q1D Q1D NE) (Reshape4 x D1D D1D 2 NE) e dy dx))"
proof -
  have c: "c = 0 \<or> c = 1" using assms by auto
  have z: "(0::nat) < 2" "(1::nat) < 2" by simp_all
  show ?thesis
    unfolding Kernel_closed sum.distrib
      offset4_sum_collapse [OF assms(1,2,3) z(1)] offset4_sum_collapse [OF assms(1,2,3) z(2)]
    using c assms(4) by auto
qed

lemma Kernel_frame:
  assumes "D1D * (D1D * (2 * NE)) \<le> a"
  shows "AddMultGradPA_Kernel_2D D1D Q1D NE b1d g1d Jtr p x y a = y a"
proof -
  have ne: "a \<noteq> offset4 D1D D1D 2 dx dy c e" if "dx < D1D" "dy < D1D" "c < 2" "e < NE" for dx dy c e
    using offset4_less [OF that] assms by simp
  have "(\<Sum>e<NE. \<Sum>dy<D1D. \<Sum>dx<D1D.
       (if a = offset4 D1D D1D 2 dx dy 0 e
        then fst (Apply_uv D1D Q1D (Reshape2 b1d Q1D D1D) (Reshape2 g1d Q1D D1D) Jtr
                    (Reshape7 p 2 2 2 2 Q1D Q1D NE) (Reshape4 x D1D D1D 2 NE) e dy dx) else 0) +
       (if a = offset4 D1D D1D 2 dx dy 1 e
        then snd (Apply_uv D1D Q1D (Reshape2 b1d Q1D D1D) (Reshape2 g1d Q1D D1D) Jtr
                    (Reshape7 p 2 2 2 2 Q1D Q1D NE) (Reshape4 x D1D D1D 2 NE) e dy dx) else 0)) = 0"
    by (intro sum.neutral ballI) (simp add: ne)
  then show ?thesis
    unfolding Kernel_closed by simp
qed

subsection \<open>The stages at a quadrature point as sums\<close>

lemma dense_DSh_simps:
  "dense_DSh b g qx qy dx dy 0 = g qx dx * b qy dy"
  "dense_DSh b g qx qy dx dy 1 = b qx dx * g qy dy"
  by (simp_all add: dense_DSh_def)

text \<open>The interpolated gradient as a double sum over the nodes.\<close>
lemma GXh_p_sum:
  "GXh_p D1D b g X e qy qx 0 = (\<Sum>dy<D1D. \<Sum>dx<D1D. dense_DSh b g qx qy dx dy 0 * X dx dy 0 e)"
  "GXh_p D1D b g X e qy qx 1 = (\<Sum>dy<D1D. \<Sum>dx<D1D. dense_DSh b g qx qy dx dy 0 * X dx dy 1 e)"
  "GXh_p D1D b g X e qy qx 2 = (\<Sum>dy<D1D. \<Sum>dx<D1D. dense_DSh b g qx qy dx dy 1 * X dx dy 0 e)"
  "GXh_p D1D b g X e qy qx 3 = (\<Sum>dy<D1D. \<Sum>dx<D1D. dense_DSh b g qx qy dx dy 1 * X dx dy 1 e)"
  unfolding GXh_p_def Let_def arr4_simps X0_def X1_def XB_def XG_def for_loop_sum dense_DSh_simps
  by (simp_all add: sum_distrib_left sum_distrib_right mult_ac)

lemma Apply_A_sum:
  "Apply_A D1D b g J X e qy qx 0 = (\<Sum>dy<D1D. \<Sum>dx<D1D. dense_DS b g J qx qy dx dy 0 * X dx dy 0 e)"
  "Apply_A D1D b g J X e qy qx 1 = (\<Sum>dy<D1D. \<Sum>dx<D1D. dense_DS b g J qx qy dx dy 0 * X dx dy 1 e)"
  "Apply_A D1D b g J X e qy qx 2 = (\<Sum>dy<D1D. \<Sum>dx<D1D. dense_DS b g J qx qy dx dy 1 * X dx dy 0 e)"
  "Apply_A D1D b g J X e qy qx 3 = (\<Sum>dy<D1D. \<Sum>dx<D1D. dense_DS b g J qx qy dx dy 1 * X dx dy 1 e)"
  unfolding Apply_A_def kernels_Mult2_def arr4_simps GXh_p_sum dense_DS_def sum_2 Jrt_entries
  by (simp_all add: sum_distrib_left sum_distrib_right sum.distrib algebra_simps)

text \<open>The contraction with the tensor and the second product with \<open>Jrt\<close>.\<close>

lemma Apply_B_entries:
  "Apply_B dP A e qy qx 0 = dP 0 0 0 0 qx qy e * A 0 + dP 0 1 0 0 qx qy e * A 2
                            + dP 1 0 0 0 qx qy e * A 1 + dP 1 1 0 0 qx qy e * A 3"
  "Apply_B dP A e qy qx 1 = dP 0 0 1 0 qx qy e * A 0 + dP 0 1 1 0 qx qy e * A 2
                            + dP 1 0 1 0 qx qy e * A 1 + dP 1 1 1 0 qx qy e * A 3"
  "Apply_B dP A e qy qx 2 = dP 0 0 0 1 qx qy e * A 0 + dP 0 1 0 1 qx qy e * A 2
                            + dP 1 0 0 1 qx qy e * A 1 + dP 1 1 0 1 qx qy e * A 3"
  "Apply_B dP A e qy qx 3 = dP 0 0 1 1 qx qy e * A 0 + dP 0 1 1 1 qx qy e * A 2
                            + dP 1 0 1 1 qx qy e * A 1 + dP 1 1 1 1 qx qy e * A 3"
  unfolding Apply_B_def Let_def arr4_simps for_loop_2
  by (simp_all add: numeral_2_eq_2 numeral_3_eq_3)

lemma Apply_C_entries:
  "Apply_C D1D b g J dP X e qy qx 0 =
     Jrt_p J 0 * Apply_B dP (Apply_A D1D b g J X e qy qx) e qy qx 0
     + Jrt_p J 2 * Apply_B dP (Apply_A D1D b g J X e qy qx) e qy qx 2"
  "Apply_C D1D b g J dP X e qy qx 1 =
     Jrt_p J 1 * Apply_B dP (Apply_A D1D b g J X e qy qx) e qy qx 0
     + Jrt_p J 3 * Apply_B dP (Apply_A D1D b g J X e qy qx) e qy qx 2"
  "Apply_C D1D b g J dP X e qy qx 2 =
     Jrt_p J 0 * Apply_B dP (Apply_A D1D b g J X e qy qx) e qy qx 1
     + Jrt_p J 2 * Apply_B dP (Apply_A D1D b g J X e qy qx) e qy qx 3"
  "Apply_C D1D b g J dP X e qy qx 3 =
     Jrt_p J 1 * Apply_B dP (Apply_A D1D b g J X e qy qx) e qy qx 1
     + Jrt_p J 3 * Apply_B dP (Apply_A D1D b g J X e qy qx) e qy qx 3"
  unfolding Apply_C_def kernels_MultABt2_def arr4_simps
  by simp_all

lemma Apply_uv_sum:
  "fst (Apply_uv D1D Q1D b g J dP X e dy dx) =
     (\<Sum>qy<Q1D. \<Sum>qx<Q1D.
        dense_DSh b g qx qy dx dy 0 * Apply_C D1D b g J dP X e qy qx 0 +
        dense_DSh b g qx qy dx dy 1 * Apply_C D1D b g J dP X e qy qx 1)"
  "snd (Apply_uv D1D Q1D b g J dP X e dy dx) =
     (\<Sum>qy<Q1D. \<Sum>qx<Q1D.
        dense_DSh b g qx qy dx dy 0 * Apply_C D1D b g J dP X e qy qx 2 +
        dense_DSh b g qx qy dx dy 1 * Apply_C D1D b g J dP X e qy qx 3)"
  unfolding Apply_uv_def Let_def fst_conv snd_conv for_loop_sum dense_DSh_simps
  by (simp_all add: sum_distrib_left sum_distrib_right sum.distrib mult_ac)

lemma point_DS_form:
  "dense_DSh b g qx qy dx dy 0 * Apply_C D1D b g J dP X e qy qx 0 +
   dense_DSh b g qx qy dx dy 1 * Apply_C D1D b g J dP X e qy qx 1 =
   dense_DS b g J qx qy dx dy 0 * Apply_B dP (Apply_A D1D b g J X e qy qx) e qy qx 0 +
   dense_DS b g J qx qy dx dy 1 * Apply_B dP (Apply_A D1D b g J X e qy qx) e qy qx 2"
  "dense_DSh b g qx qy dx dy 0 * Apply_C D1D b g J dP X e qy qx 2 +
   dense_DSh b g qx qy dx dy 1 * Apply_C D1D b g J dP X e qy qx 3 =
   dense_DS b g J qx qy dx dy 0 * Apply_B dP (Apply_A D1D b g J X e qy qx) e qy qx 1 +
   dense_DS b g J qx qy dx dy 1 * Apply_B dP (Apply_A D1D b g J X e qy qx) e qy qx 3"
  unfolding Apply_C_entries dense_DS_def sum_2 Jrt_entries
  by (simp_all add: algebra_simps)

lemma point_dense:
  "dense_DS b g J qx qy dx dy 0 * Apply_B dP (Apply_A D1D b g J X e qy qx) e qy qx 0 +
   dense_DS b g J qx qy dx dy 1 * Apply_B dP (Apply_A D1D b g J X e qy qx) e qy qx 2 =
   (\<Sum>dy'<D1D. \<Sum>dx'<D1D. \<Sum>c'<2. (\<Sum>k<2. \<Sum>j<2.
        dense_DS b g J qx qy dx dy k * dense_DS b g J qx qy dx' dy' j * dP c' j 0 k qx qy e)
      * X dx' dy' c' e)"
  "dense_DS b g J qx qy dx dy 0 * Apply_B dP (Apply_A D1D b g J X e qy qx) e qy qx 1 +
   dense_DS b g J qx qy dx dy 1 * Apply_B dP (Apply_A D1D b g J X e qy qx) e qy qx 3 =
   (\<Sum>dy'<D1D. \<Sum>dx'<D1D. \<Sum>c'<2. (\<Sum>k<2. \<Sum>j<2.
        dense_DS b g J qx qy dx dy k * dense_DS b g J qx qy dx' dy' j * dP c' j 1 k qx qy e)
      * X dx' dy' c' e)"
  unfolding Apply_B_entries Apply_A_sum sum_2
  by (simp_all add: sum_distrib_left sum_distrib_right sum.distrib algebra_simps)

lemma sum_rotate3:
  fixes f :: "nat \<Rightarrow> nat \<Rightarrow> nat \<Rightarrow> real"
  shows "(\<Sum>a<A. \<Sum>b<B. \<Sum>c<C. f a b c) = (\<Sum>c<C. \<Sum>a<A. \<Sum>b<B. f a b c)"
proof -
  have "(\<Sum>a<A. \<Sum>b<B. \<Sum>c<C. f a b c) = (\<Sum>a<A. \<Sum>c<C. \<Sum>b<B. f a b c)"
    by (rule sum.cong [OF refl]) (rule sum.swap)
  also have "\<dots> = (\<Sum>c<C. \<Sum>a<A. \<Sum>b<B. f a b c)"
    by (rule sum.swap)
  finally show ?thesis .
qed

lemma quadrature_sum_outside:
  fixes T :: "nat \<Rightarrow> nat \<Rightarrow> nat \<Rightarrow> nat \<Rightarrow> nat \<Rightarrow> real"
  shows "(\<Sum>qy<Q. \<Sum>qx<Q. \<Sum>dy'<D. \<Sum>dx'<D. \<Sum>c'<2. T qy qx dy' dx' c' * R dx' dy' c') =
         (\<Sum>dy'<D. \<Sum>dx'<D. \<Sum>c'<2. (\<Sum>qy<Q. \<Sum>qx<Q. T qy qx dy' dx' c') * R dx' dy' c')"
proof -
  have "(\<Sum>qy<Q. \<Sum>qx<Q. \<Sum>dy'<D. \<Sum>dx'<D. \<Sum>c'<2. T qy qx dy' dx' c' * R dx' dy' c') =
        (\<Sum>dy'<D. \<Sum>qy<Q. \<Sum>qx<Q. \<Sum>dx'<D. \<Sum>c'<2. T qy qx dy' dx' c' * R dx' dy' c')"
    by (rule sum_rotate3)
  also have "\<dots> = (\<Sum>dy'<D. \<Sum>dx'<D. \<Sum>qy<Q. \<Sum>qx<Q. \<Sum>c'<2. T qy qx dy' dx' c' * R dx' dy' c')"
    by (rule sum.cong [OF refl]) (rule sum_rotate3)
  also have "\<dots> = (\<Sum>dy'<D. \<Sum>dx'<D. \<Sum>c'<2. \<Sum>qy<Q. \<Sum>qx<Q. T qy qx dy' dx' c' * R dx' dy' c')"
    by (rule sum.cong [OF refl], rule sum.cong [OF refl]) (rule sum_rotate3)
  finally show ?thesis
    by (simp add: sum_distrib_right)
qed

lemma Apply_uv_dense:
  "fst (Apply_uv D1D Q1D b g J dP X e dy dx) = dense_contraction D1D Q1D b g J dP X e dx dy 0"
  "snd (Apply_uv D1D Q1D b g J dP X e dy dx) = dense_contraction D1D Q1D b g J dP X e dx dy 1"
  unfolding Apply_uv_sum point_DS_form point_dense dense_contraction_def dense_Hessian_def
  by (rule quadrature_sum_outside)+

subsection \<open>Equivalence with the dense contraction, and linearity\<close>

lemma dense_contraction_value:
  "dense_contraction 2 1 (Reshape2 (maps_B ex_integrator) 1 2) (Reshape2 (maps_G ex_integrator) 1 2) ex_Jtr
   (Reshape7 ex_P 2 2 2 2 1 1 1) (Reshape4 ex_R 2 2 2 1) 0 0 0 0 = 1 / 4"
  by (simp add: dense_contraction_def dense_Hessian_def dense_DS_def dense_DSh_def sum_2
      Jrt_def Jrt_p_def Jtr_p_def CalcInverse2_def ex_Jtr_def arr4_def
      Reshape2_def Reshape4_def Reshape7_def offset2_def offset4_def offset7_def ex_P_def ex_R_def
      ex_integrator_def)

lemma Reshape4_linear:
  "Reshape4 (\<lambda>k. \<alpha> * u k + \<beta> * v k) n0 n1 n2 n3 =
     (\<lambda>i j k l. \<alpha> * Reshape4 u n0 n1 n2 n3 i j k l + \<beta> * Reshape4 v n0 n1 n2 n3 i j k l)"
  by (simp add: Reshape4_def)

lemma dense_contraction_linear:
  "dense_contraction D1D Q1D b g J dP (\<lambda>i j k l. \<alpha> * U i j k l + \<beta> * V i j k l) e dx dy c =
     \<alpha> * dense_contraction D1D Q1D b g J dP U e dx dy c +
     \<beta> * dense_contraction D1D Q1D b g J dP V e dx dy c"
  by (simp add: dense_contraction_def sum_distrib_left sum.distrib algebra_simps)

lemma if_linear:
  "(if P then \<alpha> * x + \<beta> * y else 0) = \<alpha> * (if P then x else 0) + \<beta> * (if P then y else (0::real))"
  by simp

text \<open>
  C1. For every coefficient tensor \<open>p\<close>, trial field \<open>x\<close> and initial output \<open>y\<close> (and a
  reference Jacobian that has an inverse), the sum-factorized apply kernel returns, at every
  node \<open>(dx, dy)\<close>, component \<open>c\<close> and element \<open>e\<close>, the initial value plus the direct
  contraction of the dense local Hessian with the trial field; every address beyond the
  \<open>D1D \<times> D1D \<times> 2 \<times> NE\<close> entries keeps its value. The kernel is a total function, so it
  terminates; it adds to \<open>y\<close> and does not overwrite it.
\<close>

theorem factorized_apply_equals_dense_contraction:
  assumes "Det Jtr \<noteq> 0"
  shows "(\<forall>e<NE. \<forall>dy<D1D. \<forall>dx<D1D. \<forall>c<2.
            AddMultGradPA_Kernel_2D D1D Q1D NE b1d g1d Jtr p x y (offset4 D1D D1D 2 dx dy c e) =
              y (offset4 D1D D1D 2 dx dy c e) +
              dense_contraction D1D Q1D (Reshape2 b1d Q1D D1D) (Reshape2 g1d Q1D D1D) Jtr
                (Reshape7 p 2 2 2 2 Q1D Q1D NE) (Reshape4 x D1D D1D 2 NE) e dx dy c)
       \<and> (\<forall>a\<ge>D1D * (D1D * (2 * NE)).
            AddMultGradPA_Kernel_2D D1D Q1D NE b1d g1d Jtr p x y a = y a)"
proof (intro conjI allI impI)
  fix e dy dx c :: nat
  assume b: "e < NE" "dy < D1D" "dx < D1D" "c < 2"
  then have "c = 0 \<or> c = 1" by auto
  with b show "AddMultGradPA_Kernel_2D D1D Q1D NE b1d g1d Jtr p x y (offset4 D1D D1D 2 dx dy c e) =
              y (offset4 D1D D1D 2 dx dy c e) +
              dense_contraction D1D Q1D (Reshape2 b1d Q1D D1D) (Reshape2 g1d Q1D D1D) Jtr
                (Reshape7 p 2 2 2 2 Q1D Q1D NE) (Reshape4 x D1D D1D 2 NE) e dx dy c"
    by (auto simp add: Kernel_at_node Apply_uv_dense)
next
  fix a assume "D1D * (D1D * (2 * NE)) \<le> a"
  then show "AddMultGradPA_Kernel_2D D1D Q1D NE b1d g1d Jtr p x y a = y a"
    by (rule Kernel_frame)
qed

text \<open>C1, witness: one bilinear element, one quadrature point, the tensor \<open>ex_P\<close>, the
  output buffer initially 7 everywhere: the first entry becomes \<open>7 + 1/4\<close>, the entry after
  the last node keeps 7.\<close>

theorem factorized_apply_equals_dense_contraction_witness:
  "Det ex_Jtr \<noteq> 0 \<and>
   AddMultGradPA_Kernel_2D 2 1 1 (maps_B ex_integrator) (maps_G ex_integrator) ex_Jtr ex_P ex_R (\<lambda>k. 7)
     (offset4 2 2 2 0 0 0 0) = 7 + 1 / 4 \<and>
   AddMultGradPA_Kernel_2D 2 1 1 (maps_B ex_integrator) (maps_G ex_integrator) ex_Jtr ex_P ex_R (\<lambda>k. 7)
     8 = 7"
proof -
  have d: "Det ex_Jtr \<noteq> 0" by (simp add: Det_def ex_Jtr_def)
  show ?thesis
    using factorized_apply_equals_dense_contraction [OF d, of 1 2 1 "maps_B ex_integrator"
        "maps_G ex_integrator" ex_P ex_R "\<lambda>k. 7"] d dense_contraction_value
    by simp
qed

text \<open>
  C2. For a fixed coefficient tensor, what the apply kernel adds to the output is linear in
  the trial field: at every address, the contribution for \<open>\<alpha> u + \<beta> v\<close> is \<open>\<alpha>\<close> times the
  contribution for \<open>u\<close> plus \<open>\<beta>\<close> times the contribution for \<open>v\<close>, whatever the initial
  output buffers are.
\<close>

theorem apply_linear_in_trial_field:
  "AddMultGradPA_Kernel_2D D1D Q1D NE b1d g1d Jtr p (\<lambda>k. \<alpha> * u k + \<beta> * v k) y a - y a =
     \<alpha> * (AddMultGradPA_Kernel_2D D1D Q1D NE b1d g1d Jtr p u y1 a - y1 a) +
     \<beta> * (AddMultGradPA_Kernel_2D D1D Q1D NE b1d g1d Jtr p v y2 a - y2 a)"
  unfolding Kernel_closed Apply_uv_dense Reshape4_linear dense_contraction_linear if_linear
  by (simp add: sum.distrib sum_distrib_left algebra_simps)

text \<open>C2, an instance: \<open>2 ex_R + 3 ex_X\<close> on one bilinear element.\<close>

theorem apply_linear_in_trial_field_witness:
  "AddMultGradPA_Kernel_2D 2 1 1 (maps_B ex_integrator) (maps_G ex_integrator) ex_Jtr ex_P
      (\<lambda>k. 2 * ex_R k + 3 * ex_X k) (\<lambda>k. 0) 0 - 0 =
     2 * (AddMultGradPA_Kernel_2D 2 1 1 (maps_B ex_integrator) (maps_G ex_integrator) ex_Jtr ex_P
            ex_R (\<lambda>k. 0) 0 - 0) +
     3 * (AddMultGradPA_Kernel_2D 2 1 1 (maps_B ex_integrator) (maps_G ex_integrator) ex_Jtr ex_P
            ex_X (\<lambda>k. 0) 0 - 0)"
  using apply_linear_in_trial_field [of 2 1 1 "maps_B ex_integrator" "maps_G ex_integrator" ex_Jtr ex_P
      2 ex_R 3 ex_X "\<lambda>k. 0" 0 "\<lambda>k. 0" "\<lambda>k. 0"]
  by simp

section \<open>The invariant derivatives\<close>

lemma set_entry_same: "set_entry M i j (M i j) = M"
  by (auto simp add: set_entry_def fun_eq_iff)

lemma two_cases: "i < (2::nat) \<Longrightarrow> i = 0 \<or> i = 1"
  by auto

lemma DERIV_entry:
  "((\<lambda>x. set_entry M i j x r c) has_real_derivative (if r = i \<and> c = j then 1 else 0)) (at x0)"
proof (cases "r = i \<and> c = j")
  case True
  then show ?thesis by (simp add: set_entry_def)
next
  case False
  then have "(\<lambda>x. set_entry M i j x r c) = (\<lambda>x. M r c)"
    by (auto simp add: set_entry_def)
  with False show ?thesis by auto
qed

lemma DERIV_Det:
  assumes "i < 2" "j < 2"
  shows "((\<lambda>x. Det (set_entry M i j x)) has_real_derivative Dim2Invariant2_dM M i j) (at x0)"
  using two_cases [OF assms(1)] two_cases [OF assms(2)]
  by (auto simp add: Det_def set_entry_def Dim2Invariant2_dM_def intro!: derivative_eq_intros)

lemma DERIV_FNorm2:
  assumes "i < 2" "j < 2"
  shows "((\<lambda>x. FNorm2 (set_entry M i j x)) has_real_derivative 2 * x0) (at x0)"
  using two_cases [OF assms(1)] two_cases [OF assms(2)]
  by (auto simp add: FNorm2_def set_entry_def intro!: derivative_eq_intros)

lemma DERIV_adj:
  assumes "i < 2" "j < 2" "r < 2" "c < 2"
  shows "((\<lambda>x. Dim2Invariant2_dM (set_entry M i j x) r c) has_real_derivative
            Dim2Invariant2_dMdM M i j r c) (at x0)"
  using two_cases [OF assms(1)] two_cases [OF assms(2)] two_cases [OF assms(3)] two_cases [OF assms(4)]
  by (auto simp add: set_entry_def Dim2Invariant2_dM_def Dim2Invariant2_dMdM_def
      intro!: derivative_eq_intros)

lemma DERIV_dI1_dM:
  assumes det: "Det M \<noteq> 0" and b: "i < 2" "j < 2" "r < 2" "c < 2"
  shows "((\<lambda>x. dI1_dM (set_entry M i j x) r c) has_real_derivative
            Dim2Invariant1_dMdM M i j r c) (at (M i j))"
proof -
  let ?x0 = "M i j"
  let ?d = "\<lambda>x. Det (set_entry M i j x)"
  let ?n = "\<lambda>x. FNorm2 (set_entry M i j x)"
  let ?m = "\<lambda>x. set_entry M i j x r c"
  let ?a = "\<lambda>x. Dim2Invariant2_dM (set_entry M i j x) r c"
  let ?ddet = "Dim2Invariant2_dM M i j"
  let ?dM = "if r = i \<and> c = j then 1 else 0 :: real"
  let ?ddI = "Dim2Invariant2_dMdM M i j r c"
  have d: "(?d has_real_derivative ?ddet) (at ?x0)" by (rule DERIV_Det [OF b(1,2)])
  have n: "(?n has_real_derivative 2 * ?x0) (at ?x0)" by (rule DERIV_FNorm2 [OF b(1,2)])
  have m: "(?m has_real_derivative ?dM) (at ?x0)" by (rule DERIV_entry)
  have a: "(?a has_real_derivative ?ddI) (at ?x0)" by (rule DERIV_adj [OF b])
  have num: "((\<lambda>x. 2 * ?d x * ?m x - ?n x * ?a x) has_real_derivative
      (2 * ?ddet * ?m ?x0 + 2 * ?d ?x0 * ?dM - (2 * ?x0 * ?a ?x0 + ?n ?x0 * ?ddI))) (at ?x0)"
    by (rule derivative_eq_intros d n m a refl | simp)+
  have den: "((\<lambda>x. ?d x * ?d x) has_real_derivative (2 * ?d ?x0 * ?ddet)) (at ?x0)"
    by (rule derivative_eq_intros d refl | simp)+
  have nz: "?d ?x0 * ?d ?x0 \<noteq> 0" using det by (simp add: set_entry_same)
  have "((\<lambda>x. (2 * ?d x * ?m x - ?n x * ?a x) / (?d x * ?d x)) has_real_derivative
      ((2 * ?ddet * ?m ?x0 + 2 * ?d ?x0 * ?dM - (2 * ?x0 * ?a ?x0 + ?n ?x0 * ?ddI)) * (?d ?x0 * ?d ?x0)
       - (2 * ?d ?x0 * ?m ?x0 - ?n ?x0 * ?a ?x0) * (2 * ?d ?x0 * ?ddet)) / ((?d ?x0 * ?d ?x0) * (?d ?x0 * ?d ?x0)))
      (at ?x0)"
    by (rule DERIV_divide [OF num den nz])
  then show ?thesis
    unfolding set_entry_same dI1_dM_def Dim2Invariant1_dMdM_def Let_def
    by (simp add: algebra_simps)
qed

lemma DERIV_I1:
  assumes det: "Det M \<noteq> 0" and b: "r < 2" "c < 2"
  shows "((\<lambda>x. I1 (set_entry M r c x)) has_real_derivative dI1_dM M r c) (at (M r c))"
proof -
  let ?x0 = "M r c"
  let ?d = "\<lambda>x. Det (set_entry M r c x)"
  let ?n = "\<lambda>x. FNorm2 (set_entry M r c x)"
  have d: "(?d has_real_derivative Dim2Invariant2_dM M r c) (at ?x0)" by (rule DERIV_Det [OF b])
  have n: "(?n has_real_derivative 2 * ?x0) (at ?x0)" by (rule DERIV_FNorm2 [OF b])
  have nz: "?d ?x0 \<noteq> 0" using det by (simp add: set_entry_same)
  have "((\<lambda>x. ?n x / ?d x) has_real_derivative
      (2 * ?x0 * ?d ?x0 - ?n ?x0 * Dim2Invariant2_dM M r c) / (?d ?x0 * ?d ?x0)) (at ?x0)"
    by (rule DERIV_divide [OF n d nz])
  then show ?thesis
    unfolding set_entry_same dI1_dM_def I1_def
    by (simp add: algebra_simps)
qed

lemma I1_spec_line:
  "I1_spec (set_entry ex_Jtr 0 1 x) = 2 * (x * x + 2) - (x * x + 2) * (x * x + 2)"
  by (simp add: I1_spec_def Det_def FNorm2_def set_entry_def ex_Jtr_def add.commute)

lemma DERIV_I1_spec_line:
  "((\<lambda>t. I1_spec (set_entry ex_Jtr 0 1 t)) has_real_derivative - 4 * (x * x * x) - 4 * x) (at x)"
  unfolding I1_spec_line
  by (auto intro!: derivative_eq_intros simp add: algebra_simps)

lemma DERIV_I1_spec_line2:
  "((\<lambda>x. - 4 * (x * x * x) - 4 * x) has_real_derivative - 4) (at (0::real))"
  by (auto intro!: derivative_eq_intros)

lemma Dim2Invariant1_dMdM_identity:
  "Dim2Invariant1_dMdM ex_Jtr 0 0 0 0 = 2" "Dim2Invariant1_dMdM ex_Jtr 0 1 0 1 = 2"
  by (simp_all add: Dim2Invariant1_dMdM_def Dim2Invariant2_dM_def Dim2Invariant2_dMdM_def Det_def
      FNorm2_def ex_Jtr_def Let_def)

text \<open>
  C3 (as stated, refuted). The claim identifies the result of \<^verbatim>\<open>Dim2Invariant1_dMdM\<close> with
  the second derivative of \<open>I1(M) = (2 det(M) |M|^2 - |M|^4) / det(M)^2\<close>. Along the entry
  \<open>(0,1)\<close> through the identity matrix (the determinant stays one) the first partial
  derivative of that function is \<open>- 4 x^3 - 4 x\<close>, whose derivative at \<open>x = 0\<close>, the second
  partial derivative at the identity, is \<open>-4\<close>; the code returns \<open>2\<close> there.
\<close>

theorem spec_invariant_second_derivative_counterexample:
  "(\<forall>x. ((\<lambda>t. I1_spec (set_entry ex_Jtr 0 1 t)) has_real_derivative
            - 4 * (x * x * x) - 4 * x) (at x))
   \<and> ((\<lambda>x. - 4 * (x * x * x) - 4 * x) has_real_derivative - 4) (at 0)
   \<and> Dim2Invariant1_dMdM ex_Jtr 0 1 0 1 = 2"
  using DERIV_I1_spec_line DERIV_I1_spec_line2 Dim2Invariant1_dMdM_identity(2) by blast

text \<open>
  C3 (amended). For every 2x2 matrix \<open>M\<close> with \<open>det(M) \<noteq> 0\<close> and all \<open>i, j, r, c\<close> in
  \<open>{0, 1}\<close>, the entry \<open>(r, c)\<close> of \<^verbatim>\<open>Dim2Invariant1_dMdM(M, i, j)\<close> is exactly the partial
  derivative with respect to \<open>M(i,j)\<close> of the entry \<open>(r, c)\<close> of the gradient expression
  \<open>(2 det(M) M - |M|^2 adj(M)^T) / det(M)^2\<close>, and that expression is the gradient of the
  invariant \<open>I1(M) = |M|^2 / det(M)\<close>: the function returns the \<open>(i,j)\<close>-slice of the second
  derivative of \<open>|M|^2 / det(M)\<close>.
\<close>

theorem Dim2Invariant1_dMdM_second_derivative:
  assumes "Det M \<noteq> 0" and "i < 2" "j < 2" "r < 2" "c < 2"
  shows "((\<lambda>x. dI1_dM (set_entry M i j x) r c) has_real_derivative
            Dim2Invariant1_dMdM M i j r c) (at (M i j))
       \<and> ((\<lambda>x. I1 (set_entry M r c x)) has_real_derivative dI1_dM M r c) (at (M r c))"
  using DERIV_dI1_dM [OF assms] DERIV_I1 [OF assms(1,4,5)] by simp

text \<open>C3, witness: the identity matrix and the entry \<open>(0,0)\<close>: the second derivative is
  \<open>2\<close>, the first derivative is \<open>0\<close>.\<close>

theorem Dim2Invariant1_dMdM_second_derivative_witness:
  "Det ex_Jtr \<noteq> 0
   \<and> ((\<lambda>x. dI1_dM (set_entry ex_Jtr 0 0 x) 0 0) has_real_derivative 2) (at 1)
   \<and> ((\<lambda>x. I1 (set_entry ex_Jtr 0 0 x)) has_real_derivative 0) (at 1)"
proof -
  have d: "Det ex_Jtr \<noteq> 0" by (simp add: Det_def ex_Jtr_def)
  have z: "(0::nat) < 2" by simp
  have g: "dI1_dM ex_Jtr 0 0 = 0"
    by (simp add: dI1_dM_def Det_def FNorm2_def Dim2Invariant2_dM_def ex_Jtr_def)
  have e: "ex_Jtr 0 0 = 1" by (simp add: ex_Jtr_def)
  show ?thesis
    using Dim2Invariant1_dMdM_second_derivative [OF d z z z z] d
    unfolding Dim2Invariant1_dMdM_identity(1) g e by simp
qed

section \<open>The setup kernel\<close>

subsection \<open>Loops that write\<close>

text \<open>A loop leaves an address alone when no iteration touches it, and an address holds the
  value of the iteration that writes it when no later iteration touches it.\<close>

lemma for_loop_frame:
  assumes "\<And>i s. i < n \<Longrightarrow> body i s a = s a"
  shows "for_loop n body s a = s a"
  using assms by (induction n) simp_all

lemma for_loop_hit:
  assumes "k < n"
    and "\<And>s. body k s a = v"
    and "\<And>i s. k < i \<Longrightarrow> i < n \<Longrightarrow> body i s a = s a"
  shows "for_loop n body s a = v"
  using assms
proof (induction n)
  case 0
  then show ?case by simp
next
  case (Suc n)
  show ?case
  proof (cases "k = n")
    case True
    then show ?thesis using Suc.prems(2) by simp
  next
    case False
    then have kn: "k < n" using Suc.prems(1) by simp
    have "body n (for_loop n body s) a = for_loop n body s a"
      using Suc.prems(3) [of n] kn by simp
    also have "\<dots> = v"
      using Suc.IH [OF kn Suc.prems(2)] Suc.prems(3) by simp
    finally show ?thesis by simp
  qed
qed

lemma for_loop_pair:
  "for_loop n (\<lambda>i. case_prod (\<lambda>P G. (f i P, h i G))) =
     case_prod (\<lambda>P G. (for_loop n f P, for_loop n h G))"
  by (induction n) (simp_all add: fun_eq_iff)

lemma offset7_inj:
  assumes "i < n0" "i' < n0" "j < n1" "j' < n1" "k < n2" "k' < n2" "l < n3" "l' < n3"
    "m < n4" "m' < n4" "n < n5" "n' < n5"
  shows "(offset7 n0 n1 n2 n3 n4 n5 i j k l m n e = offset7 n0 n1 n2 n3 n4 n5 i' j' k' l' m' n' e') =
         (i = i' \<and> j = j' \<and> k = k' \<and> l = l' \<and> m = m' \<and> n = n' \<and> e = e')"
  unfolding offset7_def
  by (simp add: offset_inj assms)

lemma offset5_inj:
  assumes "i < n0" "i' < n0" "j < n1" "j' < n1" "k < n2" "k' < n2" "l < n3" "l' < n3"
  shows "(offset5 n0 n1 n2 n3 i j k l m = offset5 n0 n1 n2 n3 i' j' k' l' m') =
         (i = i' \<and> j = j' \<and> k = k' \<and> l = l' \<and> m = m')"
  unfolding offset5_def
  by (simp add: offset_inj assms)

lemma offset_less:
  fixes i j n m :: nat
  assumes "i < n" "j < m"
  shows "i + n * j < n * m"
proof -
  have "i + n * j < n + n * j" using assms by simp
  also have "\<dots> = n * Suc j" by simp
  also have "\<dots> \<le> n * m" using assms by (intro mult_le_mono2) simp
  finally show ?thesis .
qed

lemma offset7_less:
  assumes "i < n0" "j < n1" "k < n2" "l < n3" "m < n4" "n < n5" "e < n6"
  shows "offset7 n0 n1 n2 n3 n4 n5 i j k l m n e < n0 * (n1 * (n2 * (n3 * (n4 * (n5 * n6)))))"
  unfolding offset7_def
  by (intro offset_less assms)

lemma offset5_less:
  assumes "i < n0" "j < n1" "k < n2" "l < n3" "m < n4"
  shows "offset5 n0 n1 n2 n3 i j k l m < n0 * (n1 * (n2 * (n3 * n4)))"
  unfolding offset5_def
  by (intro offset_less assms)

subsection \<open>The two buffers\<close>

text \<open>The loops update \<open>P\<close> and \<open>G\<close> independently of each other.\<close>

lemma Setup_fst:
  "fst (SetupGradPA_2D D1D Q1D xe NE w b1d g1d Jtr p g) =
     for_loop NE (\<lambda>e. for_loop Q1D (\<lambda>qy. for_loop Q1D (\<lambda>qx.
       for_loop 2 (\<lambda>r. for_loop 2 (\<lambda>c P.
         store_dP Q1D P r c qx qy e
           (dP_scaled (Jpt D1D (Reshape2 b1d Q1D D1D) (Reshape2 g1d Q1D D1D) Jtr
                         (Reshape4 xe D1D D1D 2 NE) e qy qx)
              (Reshape2 w Q1D Q1D qx qy * (Jtr 0 0 * Jtr 1 1 - Jtr 0 1 * Jtr 1 0)) r c)))))) p"
  unfolding SetupGradPA_2D_def Let_def for_loop_pair
  by simp

lemma Setup_snd:
  "snd (SetupGradPA_2D D1D Q1D xe NE w b1d g1d Jtr p g) =
     for_loop NE (\<lambda>e. for_loop Q1D (\<lambda>qy. for_loop Q1D (\<lambda>qx.
       for_loop 2 (\<lambda>r. for_loop 2 (\<lambda>c G.
         add_G Q1D (D1D * D1D) G r c qx qy e
           (DS D1D (Reshape2 b1d Q1D D1D) (Reshape2 g1d Q1D D1D) Jtr qy qx)
           (dP_scaled (Jpt D1D (Reshape2 b1d Q1D D1D) (Reshape2 g1d Q1D D1D) Jtr
                         (Reshape4 xe D1D D1D 2 NE) e qy qx)
              (Reshape2 w Q1D Q1D qx qy * (Jtr 0 0 * Jtr 1 1 - Jtr 0 1 * Jtr 1 0)) r c)))))) g"
  unfolding SetupGradPA_2D_def Let_def for_loop_pair
  by simp

subsection \<open>The tensor \<open>P\<close>\<close>

lemma store_dP_at:
  assumes "rr < 2" "cc < 2" "r < 2" "c < 2" "qx < Q" "qy < Q"
    and "r' < 2" "c' < 2" "qx' < Q" "qy' < Q"
  shows "store_dP Q P r' c' qx' qy' e' D (offset7 2 2 2 2 Q Q rr cc r c qx qy e) =
           (if r' = r \<and> c' = c \<and> qx' = qx \<and> qy' = qy \<and> e' = e then D rr cc
            else P (offset7 2 2 2 2 Q Q rr cc r c qx qy e))"
proof -
  have rr: "rr = 0 \<or> rr = 1" and cc: "cc = 0 \<or> cc = 1" using assms by auto
  have inj: "(offset7 2 2 2 2 Q Q i1 j1 r c qx qy e = offset7 2 2 2 2 Q Q i2 j2 r' c' qx' qy' e') =
      (i1 = i2 \<and> j1 = j2 \<and> r = r' \<and> c = c' \<and> qx = qx' \<and> qy = qy' \<and> e = e')"
    if "i1 < 2" "j1 < 2" "i2 < 2" "j2 < 2" for i1 j1 i2 j2
    by (rule offset7_inj) (use assms that in simp_all)
  have z: "(0::nat) < 2" "(1::nat) < 2" by simp_all
  show ?thesis
    unfolding store_dP_def for_loop_2 fun_upd_apply
      inj [OF assms(1,2) z(1) z(1)] inj [OF assms(1,2) z(1) z(2)]
      inj [OF assms(1,2) z(2) z(1)] inj [OF assms(1,2) z(2) z(2)]
    using rr cc by auto
qed


lemma P_loop_c:
  assumes "rr < 2" "cc < 2" "r < 2" "c < 2" "qx < Q" "qy < Q"
    and "r' < 2" "qx' < Q" "qy' < Q"
  shows "for_loop 2 (\<lambda>c' P. store_dP Q P r' c' qx' qy' e' (D c')) P
           (offset7 2 2 2 2 Q Q rr cc r c qx qy e) =
           (if r' = r \<and> qx' = qx \<and> qy' = qy \<and> e' = e then D c rr cc
            else P (offset7 2 2 2 2 Q Q rr cc r c qx qy e))"
proof (cases "r' = r \<and> qx' = qx \<and> qy' = qy \<and> e' = e")
  case True
  have "for_loop 2 (\<lambda>c' P. store_dP Q P r' c' qx' qy' e' (D c')) P
           (offset7 2 2 2 2 Q Q rr cc r c qx qy e) = D c rr cc"
    by (rule for_loop_hit [where k = c]) (use assms True in \<open>simp_all add: store_dP_at\<close>)
  with True show ?thesis by simp
next
  case False
  have "for_loop 2 (\<lambda>c' P. store_dP Q P r' c' qx' qy' e' (D c')) P
           (offset7 2 2 2 2 Q Q rr cc r c qx qy e) = P (offset7 2 2 2 2 Q Q rr cc r c qx qy e)"
    by (rule for_loop_frame) (use assms False in \<open>auto simp add: store_dP_at\<close>)
  with False show ?thesis by auto
qed

lemma P_loop_r:
  assumes "rr < 2" "cc < 2" "r < 2" "c < 2" "qx < Q" "qy < Q"
    and "qx' < Q" "qy' < Q"
  shows "for_loop 2 (\<lambda>r'. for_loop 2 (\<lambda>c' P. store_dP Q P r' c' qx' qy' e' (D r' c'))) P
           (offset7 2 2 2 2 Q Q rr cc r c qx qy e) =
           (if qx' = qx \<and> qy' = qy \<and> e' = e then D r c rr cc
            else P (offset7 2 2 2 2 Q Q rr cc r c qx qy e))"
proof (cases "qx' = qx \<and> qy' = qy \<and> e' = e")
  case True
  have "for_loop 2 (\<lambda>r'. for_loop 2 (\<lambda>c' P. store_dP Q P r' c' qx' qy' e' (D r' c'))) P
           (offset7 2 2 2 2 Q Q rr cc r c qx qy e) = D r c rr cc"
    by (rule for_loop_hit [where k = r]) (use assms True in \<open>simp_all add: P_loop_c\<close>)
  with True show ?thesis by simp
next
  case False
  have "for_loop 2 (\<lambda>r'. for_loop 2 (\<lambda>c' P. store_dP Q P r' c' qx' qy' e' (D r' c'))) P
           (offset7 2 2 2 2 Q Q rr cc r c qx qy e) = P (offset7 2 2 2 2 Q Q rr cc r c qx qy e)"
    by (rule for_loop_frame) (use assms False in \<open>auto simp add: P_loop_c\<close>)
  with False show ?thesis by auto
qed

lemma P_loop_qx:
  assumes "rr < 2" "cc < 2" "r < 2" "c < 2" "qx < Q" "qy < Q"
    and "qy' < Q"
  shows "for_loop Q (\<lambda>qx'. for_loop 2 (\<lambda>r'. for_loop 2 (\<lambda>c' P.
             store_dP Q P r' c' qx' qy' e' (D qx' r' c')))) P
           (offset7 2 2 2 2 Q Q rr cc r c qx qy e) =
           (if qy' = qy \<and> e' = e then D qx r c rr cc
            else P (offset7 2 2 2 2 Q Q rr cc r c qx qy e))"
proof (cases "qy' = qy \<and> e' = e")
  case True
  have "for_loop Q (\<lambda>qx'. for_loop 2 (\<lambda>r'. for_loop 2 (\<lambda>c' P.
             store_dP Q P r' c' qx' qy' e' (D qx' r' c')))) P
           (offset7 2 2 2 2 Q Q rr cc r c qx qy e) = D qx r c rr cc"
    by (rule for_loop_hit [where k = qx]) (use assms True in \<open>simp_all add: P_loop_r\<close>)
  with True show ?thesis by simp
next
  case False
  have "for_loop Q (\<lambda>qx'. for_loop 2 (\<lambda>r'. for_loop 2 (\<lambda>c' P.
             store_dP Q P r' c' qx' qy' e' (D qx' r' c')))) P
           (offset7 2 2 2 2 Q Q rr cc r c qx qy e) = P (offset7 2 2 2 2 Q Q rr cc r c qx qy e)"
    by (rule for_loop_frame) (use assms False in \<open>auto simp add: P_loop_r\<close>)
  with False show ?thesis by auto
qed

lemma P_loop_qy:
  assumes "rr < 2" "cc < 2" "r < 2" "c < 2" "qx < Q" "qy < Q"
  shows "for_loop Q (\<lambda>qy'. for_loop Q (\<lambda>qx'. for_loop 2 (\<lambda>r'. for_loop 2 (\<lambda>c' P.
             store_dP Q P r' c' qx' qy' e' (D qy' qx' r' c'))))) P
           (offset7 2 2 2 2 Q Q rr cc r c qx qy e) =
           (if e' = e then D qy qx r c rr cc
            else P (offset7 2 2 2 2 Q Q rr cc r c qx qy e))"
proof (cases "e' = e")
  case True
  have "for_loop Q (\<lambda>qy'. for_loop Q (\<lambda>qx'. for_loop 2 (\<lambda>r'. for_loop 2 (\<lambda>c' P.
             store_dP Q P r' c' qx' qy' e' (D qy' qx' r' c'))))) P
           (offset7 2 2 2 2 Q Q rr cc r c qx qy e) = D qy qx r c rr cc"
    by (rule for_loop_hit [where k = qy]) (use assms True in \<open>simp_all add: P_loop_qx\<close>)
  with True show ?thesis by simp
next
  case False
  have "for_loop Q (\<lambda>qy'. for_loop Q (\<lambda>qx'. for_loop 2 (\<lambda>r'. for_loop 2 (\<lambda>c' P.
             store_dP Q P r' c' qx' qy' e' (D qy' qx' r' c'))))) P
           (offset7 2 2 2 2 Q Q rr cc r c qx qy e) = P (offset7 2 2 2 2 Q Q rr cc r c qx qy e)"
    by (rule for_loop_frame) (use assms False in \<open>auto simp add: P_loop_qx\<close>)
  with False show ?thesis by auto
qed

lemma P_loop_e:
  assumes "rr < 2" "cc < 2" "r < 2" "c < 2" "qx < Q" "qy < Q" "e < NE"
  shows "for_loop NE (\<lambda>e'. for_loop Q (\<lambda>qy'. for_loop Q (\<lambda>qx'. for_loop 2 (\<lambda>r'. for_loop 2 (\<lambda>c' P.
             store_dP Q P r' c' qx' qy' e' (D e' qy' qx' r' c')))))) P
           (offset7 2 2 2 2 Q Q rr cc r c qx qy e) = D e qy qx r c rr cc"
  by (rule for_loop_hit [where k = e]) (use assms in \<open>simp_all add: P_loop_qy\<close>)

lemma Setup_P_at:
  assumes "rr < 2" "cc < 2" "r < 2" "c < 2" "qx < Q1D" "qy < Q1D" "e < NE"
  shows "fst (SetupGradPA_2D D1D Q1D xe NE w b1d g1d Jtr p g)
           (offset7 2 2 2 2 Q1D Q1D rr cc r c qx qy e) =
         dP_scaled (Jpt D1D (Reshape2 b1d Q1D D1D) (Reshape2 g1d Q1D D1D) Jtr
                         (Reshape4 xe D1D D1D 2 NE) e qy qx)
              (Reshape2 w Q1D Q1D qx qy * (Jtr 0 0 * Jtr 1 1 - Jtr 0 1 * Jtr 1 0)) r c rr cc"
  unfolding Setup_fst
  by (rule P_loop_e [OF assms])

lemma store_dP_frame:
  assumes "2 * (2 * (2 * (2 * (Q * (Q * NE))))) \<le> a"
    and "r < 2" "c < 2" "qx < Q" "qy < Q" "e < NE"
  shows "store_dP Q P r c qx qy e D a = P a"
proof -
  have ne: "a \<noteq> offset7 2 2 2 2 Q Q rr cc r c qx qy e" if "rr < 2" "cc < 2" for rr cc
    using offset7_less [OF that assms(2-6)] assms(1) by simp
  have z: "(0::nat) < 2" "(1::nat) < 2" by simp_all
  show ?thesis
    unfolding store_dP_def for_loop_2 fun_upd_apply
    using ne [OF z(1) z(1)] ne [OF z(1) z(2)] ne [OF z(2) z(1)] ne [OF z(2) z(2)]
    by simp
qed

lemma Setup_P_frame:
  assumes "2 * (2 * (2 * (2 * (Q1D * (Q1D * NE))))) \<le> a"
  shows "fst (SetupGradPA_2D D1D Q1D xe NE w b1d g1d Jtr p g) a = p a"
  unfolding Setup_fst
  by (rule for_loop_frame)+ (rule store_dP_frame [OF assms])

subsection \<open>The dense buffer \<open>G\<close>\<close>

lemma add_G_delta:
  "add_G Q dof G r c qx qy e dS dP x =
     G x + (\<Sum>rr<2. \<Sum>cc<2. \<Sum>i<dof. \<Sum>j<dof.
              if x = offset5 Q Q (dof * 2) (dof * 2) qx qy (i + r * dof) (j + rr * dof) e
              then dS i c * dS j cc * dP rr cc else 0)"
  unfolding add_G_def Let_def
  by (rule for_loop_delta)+ simp

lemma Setup_G_delta:
  "snd (SetupGradPA_2D D1D Q1D xe NE w b1d g1d Jtr p g) x =
     g x + (\<Sum>e<NE. \<Sum>qy<Q1D. \<Sum>qx<Q1D. \<Sum>r<2. \<Sum>c<2. \<Sum>rr<2. \<Sum>cc<2. \<Sum>i<D1D * D1D. \<Sum>j<D1D * D1D.
              if x = offset5 Q1D Q1D (D1D * D1D * 2) (D1D * D1D * 2) qx qy
                       (i + r * (D1D * D1D)) (j + rr * (D1D * D1D)) e
              then DS D1D (Reshape2 b1d Q1D D1D) (Reshape2 g1d Q1D D1D) Jtr qy qx i c *
                   DS D1D (Reshape2 b1d Q1D D1D) (Reshape2 g1d Q1D D1D) Jtr qy qx j cc *
                   dP_scaled (Jpt D1D (Reshape2 b1d Q1D D1D) (Reshape2 g1d Q1D D1D) Jtr
                         (Reshape4 xe D1D D1D 2 NE) e qy qx)
                     (Reshape2 w Q1D Q1D qx qy * (Jtr 0 0 * Jtr 1 1 - Jtr 0 1 * Jtr 1 0)) r c rr cc
              else 0)"
  unfolding Setup_snd
  by (rule for_loop_delta)+ (rule add_G_delta)

lemma Setup_G_frame:
  assumes "Q1D * (Q1D * ((D1D * D1D * 2) * ((D1D * D1D * 2) * NE))) \<le> a"
  shows "snd (SetupGradPA_2D D1D Q1D xe NE w b1d g1d Jtr p g) a = g a"
proof -
  have blk: "i + r * (D1D * D1D) < D1D * D1D * 2" if "i < D1D * D1D" "r < 2" for i r
    using offset_less [OF that] by (simp add: mult.commute)
  have ne: "a \<noteq> offset5 Q1D Q1D (D1D * D1D * 2) (D1D * D1D * 2) qx qy
                       (i + r * (D1D * D1D)) (j + rr * (D1D * D1D)) e"
    if "qx < Q1D" "qy < Q1D" "i < D1D * D1D" "r < 2" "j < D1D * D1D" "rr < 2" "e < NE"
    for qx qy i r j rr e
    using offset5_less [OF that(1,2) blk [OF that(3,4)] blk [OF that(5,6)] that(7)] assms by simp
  show ?thesis
    unfolding Setup_G_delta
    by (simp add: ne)
qed

lemma sum_if_const:
  "(\<Sum>i<n::nat. if P then f i else 0) = (if P then (\<Sum>i<n. f i) else (0::real))"
  by simp

lemma block_inj:
  fixes i i0 r r0 dof :: nat
  assumes "i < dof" "i0 < dof"
  shows "(i0 + r0 * dof = i + r * dof) = (i = i0 \<and> r = r0)"
  using offset_inj [OF assms(2,1), of r0 r] by (auto simp add: mult.commute)

lemma block_less:
  fixes i r dof :: nat
  assumes "i < dof" "r < 2"
  shows "i + r * dof < dof * 2"
  using offset_less [OF assms] by (simp add: mult.commute)

lemma offset5_sum_collapse:
  fixes F :: "nat \<Rightarrow> nat \<Rightarrow> nat \<Rightarrow> nat \<Rightarrow> nat \<Rightarrow> nat \<Rightarrow> nat \<Rightarrow> nat \<Rightarrow> nat \<Rightarrow> real"
  assumes "qx0 < Q" "qy0 < Q" "i0 < dof" "j0 < dof" "r0 < 2" "rr0 < 2" "e0 < NE"
  shows "(\<Sum>e<NE. \<Sum>qy<Q. \<Sum>qx<Q. \<Sum>r<2. \<Sum>c<2. \<Sum>rr<2. \<Sum>cc<2. \<Sum>i<dof. \<Sum>j<dof.
            if offset5 Q Q (dof * 2) (dof * 2) qx0 qy0 (i0 + r0 * dof) (j0 + rr0 * dof) e0 =
               offset5 Q Q (dof * 2) (dof * 2) qx qy (i + r * dof) (j + rr * dof) e
            then F e qy qx r c rr cc i j else 0) =
         (\<Sum>c<2. \<Sum>cc<2. F e0 qy0 qx0 r0 c rr0 cc i0 j0)"
proof -
  have "(\<Sum>e<NE. \<Sum>qy<Q. \<Sum>qx<Q. \<Sum>r<2. \<Sum>c<2. \<Sum>rr<2. \<Sum>cc<2. \<Sum>i<dof. \<Sum>j<dof.
            if offset5 Q Q (dof * 2) (dof * 2) qx0 qy0 (i0 + r0 * dof) (j0 + rr0 * dof) e0 =
               offset5 Q Q (dof * 2) (dof * 2) qx qy (i + r * dof) (j + rr * dof) e
            then F e qy qx r c rr cc i j else 0) =
        (\<Sum>e<NE. \<Sum>qy<Q. \<Sum>qx<Q. \<Sum>r<2. \<Sum>c<2. \<Sum>rr<2. \<Sum>cc<2. \<Sum>i<dof. \<Sum>j<dof.
            if j = j0 \<and> (i = i0 \<and> (rr = rr0 \<and> (r = r0 \<and> (qx = qx0 \<and> (qy = qy0 \<and> e = e0)))))
            then F e qy qx r c rr cc i j else 0)"
  proof (intro sum.cong refl)
    fix e qy qx r c rr cc i j
    assume b: "qy \<in> {..<Q}" "qx \<in> {..<Q}" "r \<in> {..<2::nat}" "rr \<in> {..<2::nat}"
      "i \<in> {..<dof}" "j \<in> {..<dof}"
    have "(offset5 Q Q (dof * 2) (dof * 2) qx0 qy0 (i0 + r0 * dof) (j0 + rr0 * dof) e0 =
               offset5 Q Q (dof * 2) (dof * 2) qx qy (i + r * dof) (j + rr * dof) e) =
          (qx0 = qx \<and> qy0 = qy \<and> i0 + r0 * dof = i + r * dof \<and> j0 + rr0 * dof = j + rr * dof \<and> e0 = e)"
      by (rule offset5_inj) (use assms b in \<open>simp_all add: block_less\<close>)
    also have "\<dots> = (j = j0 \<and> (i = i0 \<and> (rr = rr0 \<and> (r = r0 \<and> (qx = qx0 \<and> (qy = qy0 \<and> e = e0))))))"
      using assms b by (auto simp add: block_inj)
    finally show "(if offset5 Q Q (dof * 2) (dof * 2) qx0 qy0 (i0 + r0 * dof) (j0 + rr0 * dof) e0 =
               offset5 Q Q (dof * 2) (dof * 2) qx qy (i + r * dof) (j + rr * dof) e
            then F e qy qx r c rr cc i j else 0) =
          (if j = j0 \<and> (i = i0 \<and> (rr = rr0 \<and> (r = r0 \<and> (qx = qx0 \<and> (qy = qy0 \<and> e = e0)))))
            then F e qy qx r c rr cc i j else 0)"
      by simp
  qed
  also have "\<dots> = (\<Sum>c<2. \<Sum>cc<2. F e0 qy0 qx0 r0 c rr0 cc i0 j0)"
    using assms by (simp add: sum_if_eq sum_if_const)
  finally show ?thesis .
qed

lemma Setup_G_at:
  assumes "qx < Q1D" "qy < Q1D" "i < D1D * D1D" "j < D1D * D1D" "r < 2" "rr < 2" "e < NE"
  shows "snd (SetupGradPA_2D D1D Q1D xe NE w b1d g1d Jtr p g)
           (offset5 Q1D Q1D (D1D * D1D * 2) (D1D * D1D * 2) qx qy
              (i + r * (D1D * D1D)) (j + rr * (D1D * D1D)) e) =
         g (offset5 Q1D Q1D (D1D * D1D * 2) (D1D * D1D * 2) qx qy
              (i + r * (D1D * D1D)) (j + rr * (D1D * D1D)) e) +
         (\<Sum>c<2. \<Sum>cc<2.
            DS D1D (Reshape2 b1d Q1D D1D) (Reshape2 g1d Q1D D1D) Jtr qy qx i c *
            DS D1D (Reshape2 b1d Q1D D1D) (Reshape2 g1d Q1D D1D) Jtr qy qx j cc *
            dP_scaled (Jpt D1D (Reshape2 b1d Q1D D1D) (Reshape2 g1d Q1D D1D) Jtr
                         (Reshape4 xe D1D D1D 2 NE) e qy qx)
              (Reshape2 w Q1D Q1D qx qy * (Jtr 0 0 * Jtr 1 1 - Jtr 0 1 * Jtr 1 0)) r c rr cc)"
  unfolding Setup_G_delta
  by (simp only: offset5_sum_collapse [OF assms])

lemma dP_scaled_sgn:
  assumes "Det Jp \<noteq> 0"
  shows "dP_scaled Jp (weight * (Jtr 0 0 * Jtr 1 1 - Jtr 0 1 * Jtr 1 0)) r c rr cc =
           Dim2Invariant1_dMdM Jp r c rr cc * (sgn (Det Jp) * 0.5 * (weight * Det Jtr))"
  using assms by (simp add: dP_scaled_def Let_def Det_def sgn_real_def mult.commute)

subsection \<open>The dense buffer holds the Hessian of the reference contraction\<close>

text \<open>
  The table \<^verbatim>\<open>DSh\<close> numbers the node \<open>(i1, i2)\<close> as \<open>i2 + i1 D1D\<close>; at that row it holds
  the reference gradient \<open>dense_DSh\<close> of the node. Summed over the quadrature points, the
  block that the setup adds to a zeroed \<open>G\<close> is \<open>dense_Hessian\<close> on the tensor that the
  same setup stores: the dense contraction that the apply kernel is compared with is the
  contraction with this assembled matrix.
\<close>

lemma for_loop_keeps:
  assumes "\<And>i s. i < n \<Longrightarrow> obs (body i s) = obs s"
  shows "obs (for_loop n body s) = obs s"
  using assms by (induction n) simp_all

lemma for_loop_sets:
  assumes "k < n"
    and "\<And>s. obs (body k s) = v"
    and "\<And>i s. k < i \<Longrightarrow> i < n \<Longrightarrow> obs (body i s) = obs s"
  shows "obs (for_loop n body s) = v"
  using assms
proof (induction n)
  case 0
  then show ?case by simp
next
  case (Suc n)
  show ?case
  proof (cases "k = n")
    case True
    then show ?thesis using Suc.prems(2) by simp
  next
    case False
    then have kn: "k < n" using Suc.prems(1) by simp
    have "obs (body n (for_loop n body s)) = obs (for_loop n body s)"
      using Suc.prems(3) [of n] kn by simp
    also have "\<dots> = v"
      using Suc.IH [OF kn Suc.prems(2)] Suc.prems(3) by simp
    finally show ?thesis by simp
  qed
qed

lemma DSh_node:
  assumes "i1 < D1D" "i2 < D1D" "k < 2"
  shows "DSh D1D B1d G1d qy qx (i2 + i1 * D1D) k = dense_DSh B1d G1d qx qy i1 i2 k"
proof -
  let ?obs = "\<lambda>M :: DenseMatrix. M (i2 + i1 * D1D) k"
  have k: "k = 0 \<or> k = 1" using assms by auto
  have same: "(i2 + i1 * D1D = j2 + j1 * D1D) = (i2 = j2 \<and> i1 = j1)" if "j2 < D1D" for j1 j2
    using offset_inj [OF assms(2) that, of i1 j1] by (simp add: mult.commute)
  have inner: "?obs (for_loop D1D (\<lambda>j2 M.
        set_entry (set_entry M (j2 + j1 * D1D) 0 (G1d qx j1 * B1d qy j2))
          (j2 + j1 * D1D) 1 (B1d qx j1 * G1d qy j2)) M) =
      (if j1 = i1 then dense_DSh B1d G1d qx qy i1 i2 k else ?obs M)" for j1 M
  proof (cases "j1 = i1")
    case True
    have "?obs (for_loop D1D (\<lambda>j2 M.
        set_entry (set_entry M (j2 + j1 * D1D) 0 (G1d qx j1 * B1d qy j2))
          (j2 + j1 * D1D) 1 (B1d qx j1 * G1d qy j2)) M) = dense_DSh B1d G1d qx qy i1 i2 k"
      by (rule for_loop_sets [where k = i2 and obs = ?obs])
        (use assms(2) k True in \<open>auto simp add: Let_def set_entry_def dense_DSh_def same\<close>)
    with True show ?thesis by simp
  next
    case False
    have "?obs (for_loop D1D (\<lambda>j2 M.
        set_entry (set_entry M (j2 + j1 * D1D) 0 (G1d qx j1 * B1d qy j2))
          (j2 + j1 * D1D) 1 (B1d qx j1 * G1d qy j2)) M) = ?obs M"
      by (rule for_loop_keeps [where obs = ?obs]) (use False in \<open>auto simp add: Let_def set_entry_def same\<close>)
    with False show ?thesis by auto
  qed
  show ?thesis
    unfolding DSh_def Let_def
  proof (rule for_loop_sets [where k = i1 and obs = ?obs])
    show "i1 < D1D" by (rule assms(1))
  next
    fix M :: DenseMatrix
    show "?obs (for_loop D1D (\<lambda>i2 M.
        set_entry (set_entry M (i2 + i1 * D1D) 0 (G1d qx i1 * B1d qy i2))
          (i2 + i1 * D1D) 1 (B1d qx i1 * G1d qy i2)) M) = dense_DSh B1d G1d qx qy i1 i2 k"
      unfolding inner by simp
  next
    fix j1 and M :: DenseMatrix
    assume "i1 < j1"
    then have "j1 \<noteq> i1" by simp
    then show "?obs (for_loop D1D (\<lambda>i2 M.
        set_entry (set_entry M (i2 + j1 * D1D) 0 (G1d qx j1 * B1d qy i2))
          (i2 + j1 * D1D) 1 (B1d qx j1 * G1d qy i2)) M) = ?obs M"
      unfolding inner by simp
  qed
qed

lemma node_less:
  fixes i1 i2 D1D :: nat
  assumes "i1 < D1D" "i2 < D1D"
  shows "i2 + i1 * D1D < D1D * D1D"
  using offset_less [OF assms(2,1)] by (simp add: mult.commute)

lemma DS_node:
  assumes "i1 < D1D" "i2 < D1D"
  shows "DS D1D B1d G1d J qy qx (i2 + i1 * D1D) k = dense_DS B1d G1d J qx qy i1 i2 k"
  unfolding DS_def Mult_def dense_DS_def sum_2
  by (simp add: DSh_node assms)

lemma Setup_assembles_dense_Hessian:
  assumes "dx < D1D" "dy < D1D" "c < 2" "dx' < D1D" "dy' < D1D" "c' < 2" "e < NE"
    and "SetupGradPA_2D D1D Q1D xe NE w b1d g1d Jtr p (\<lambda>k. 0) = (P', G')"
  shows "(\<Sum>qy<Q1D. \<Sum>qx<Q1D.
            G' (offset5 Q1D Q1D (D1D * D1D * 2) (D1D * D1D * 2) qx qy
                  ((dy + dx * D1D) + c * (D1D * D1D)) ((dy' + dx' * D1D) + c' * (D1D * D1D)) e)) =
         dense_Hessian Q1D (Reshape2 b1d Q1D D1D) (Reshape2 g1d Q1D D1D) Jtr
           (Reshape7 P' 2 2 2 2 Q1D Q1D NE) e dx dy c dx' dy' c'"
proof -
  have P': "P' = fst (SetupGradPA_2D D1D Q1D xe NE w b1d g1d Jtr p (\<lambda>k. 0))"
    and G': "G' = snd (SetupGradPA_2D D1D Q1D xe NE w b1d g1d Jtr p (\<lambda>k. 0))"
    using assms(8) by simp_all
  have point: "G' (offset5 Q1D Q1D (D1D * D1D * 2) (D1D * D1D * 2) qx qy
                  ((dy + dx * D1D) + c * (D1D * D1D)) ((dy' + dx' * D1D) + c' * (D1D * D1D)) e) =
      (\<Sum>k<2. \<Sum>j<2.
        dense_DS (Reshape2 b1d Q1D D1D) (Reshape2 g1d Q1D D1D) Jtr qx qy dx dy k *
        dense_DS (Reshape2 b1d Q1D D1D) (Reshape2 g1d Q1D D1D) Jtr qx qy dx' dy' j *
        Reshape7 P' 2 2 2 2 Q1D Q1D NE c' j c k qx qy e)"
    if "qy < Q1D" "qx < Q1D" for qy qx
  proof -
    have "(\<Sum>k<2. \<Sum>j<2.
        dense_DS (Reshape2 b1d Q1D D1D) (Reshape2 g1d Q1D D1D) Jtr qx qy dx dy k *
        dense_DS (Reshape2 b1d Q1D D1D) (Reshape2 g1d Q1D D1D) Jtr qx qy dx' dy' j *
        Reshape7 P' 2 2 2 2 Q1D Q1D NE c' j c k qx qy e) =
      (\<Sum>k<2. \<Sum>j<2.
        DS D1D (Reshape2 b1d Q1D D1D) (Reshape2 g1d Q1D D1D) Jtr qy qx (dy + dx * D1D) k *
        DS D1D (Reshape2 b1d Q1D D1D) (Reshape2 g1d Q1D D1D) Jtr qy qx (dy' + dx' * D1D) j *
        dP_scaled (Jpt D1D (Reshape2 b1d Q1D D1D) (Reshape2 g1d Q1D D1D) Jtr
                         (Reshape4 xe D1D D1D 2 NE) e qy qx)
              (Reshape2 w Q1D Q1D qx qy * (Jtr 0 0 * Jtr 1 1 - Jtr 0 1 * Jtr 1 0)) c k c' j)"
      by (intro sum.cong refl)
        (simp add: DS_node assms(1-7) that Reshape7_def P' Setup_P_at)
    then show ?thesis
      unfolding G' Setup_G_at [OF that(2,1) node_less [OF assms(1,2)] node_less [OF assms(4,5)]
          assms(3,6,7)]
      by simp
  qed
  show ?thesis
    unfolding dense_Hessian_def
    by (intro sum.cong refl) (simp add: point)
qed

subsection \<open>Values on the concrete elements\<close>

lemma GXh_p_unit:
  "GXh_p 2 (Reshape2 (maps_B ex_integrator) 1 2) (Reshape2 (maps_G ex_integrator) 1 2)
     (Reshape4 ex_X 2 2 2 1) 0 0 0 = arr4 1 0 0 1"
  by (simp add: GXh_p_def XB_def XG_def X0_def X1_def numeral_2_eq_2 Reshape4_def offset4_def
      ex_X_def Reshape2_def offset2_def ex_integrator_def)

lemma GXh_p_inverted:
  "GXh_p 2 (Reshape2 (maps_B ex_integrator) 1 2) (Reshape2 (maps_G ex_integrator) 1 2)
     (Reshape4 ex_X_inverted 2 2 2 1) 0 0 0 = arr4 (- 1) 0 0 1"
  by (simp add: GXh_p_def XB_def XG_def X0_def X1_def numeral_2_eq_2 Reshape4_def offset4_def
      ex_X_inverted_def Reshape2_def offset2_def ex_integrator_def)

lemma Jpt_unit:
  "Jpt 2 (Reshape2 (maps_B ex_integrator) 1 2) (Reshape2 (maps_G ex_integrator) 1 2) ex_Jtr
     (Reshape4 ex_X 2 2 2 1) 0 0 0 0 0 = 1"
  "Jpt 2 (Reshape2 (maps_B ex_integrator) 1 2) (Reshape2 (maps_G ex_integrator) 1 2) ex_Jtr
     (Reshape4 ex_X 2 2 2 1) 0 0 0 1 0 = 0"
  "Jpt 2 (Reshape2 (maps_B ex_integrator) 1 2) (Reshape2 (maps_G ex_integrator) 1 2) ex_Jtr
     (Reshape4 ex_X 2 2 2 1) 0 0 0 0 1 = 0"
  "Jpt 2 (Reshape2 (maps_B ex_integrator) 1 2) (Reshape2 (maps_G ex_integrator) 1 2) ex_Jtr
     (Reshape4 ex_X 2 2 2 1) 0 0 0 1 1 = 1"
  unfolding Jpt_def GXh_p_unit Let_def Mult_def Jrt_ex_Jtr
  by (simp_all add: arr4_def)

lemma Jpt_inverted:
  "Jpt 2 (Reshape2 (maps_B ex_integrator) 1 2) (Reshape2 (maps_G ex_integrator) 1 2) ex_Jtr
     (Reshape4 ex_X_inverted 2 2 2 1) 0 0 0 0 0 = - 1"
  "Jpt 2 (Reshape2 (maps_B ex_integrator) 1 2) (Reshape2 (maps_G ex_integrator) 1 2) ex_Jtr
     (Reshape4 ex_X_inverted 2 2 2 1) 0 0 0 1 0 = 0"
  "Jpt 2 (Reshape2 (maps_B ex_integrator) 1 2) (Reshape2 (maps_G ex_integrator) 1 2) ex_Jtr
     (Reshape4 ex_X_inverted 2 2 2 1) 0 0 0 0 1 = 0"
  "Jpt 2 (Reshape2 (maps_B ex_integrator) 1 2) (Reshape2 (maps_G ex_integrator) 1 2) ex_Jtr
     (Reshape4 ex_X_inverted 2 2 2 1) 0 0 0 1 1 = 1"
  unfolding Jpt_def GXh_p_inverted Let_def Mult_def Jrt_ex_Jtr
  by (simp_all add: arr4_def)

lemma DS_unit:
  "DS 2 (Reshape2 (maps_B ex_integrator) 1 2) (Reshape2 (maps_G ex_integrator) 1 2) ex_Jtr 0 0 0 0
     = - (1 / 2)"
  "DS 2 (Reshape2 (maps_B ex_integrator) 1 2) (Reshape2 (maps_G ex_integrator) 1 2) ex_Jtr 0 0 0 1
     = - (1 / 2)"
  unfolding DS_def Mult_def Jrt_ex_Jtr DSh_def for_loop_2 Let_def
  by (simp_all add: set_entry_def Reshape2_def offset2_def ex_integrator_def)

lemma dMdM_unit:
  assumes "M 0 0 = 1" "M 1 0 = 0" "M 0 1 = 0" "M 1 1 = 1"
  shows "Dim2Invariant1_dMdM M 0 0 0 0 = 2" "Dim2Invariant1_dMdM M 0 0 0 1 = 0"
    "Dim2Invariant1_dMdM M 0 1 0 0 = 0" "Dim2Invariant1_dMdM M 0 1 0 1 = 2"
  unfolding Dim2Invariant1_dMdM_def Let_def Dim2Invariant2_dM_def Dim2Invariant2_dMdM_def
    Det_def FNorm2_def assms
  by simp_all

lemma dMdM_inverted:
  assumes "M 0 0 = - 1" "M 1 0 = 0" "M 0 1 = 0" "M 1 1 = 1"
  shows "Dim2Invariant1_dMdM M 0 0 0 0 = - 2"
  unfolding Dim2Invariant1_dMdM_def Let_def Dim2Invariant2_dM_def Dim2Invariant2_dMdM_def
    Det_def FNorm2_def assms
  by simp

lemma G_entry_unit:
  "snd (SetupGradPA_2D 2 1 ex_X 1 (\<lambda>k. 1) (maps_B ex_integrator) (maps_G ex_integrator)
            ex_Jtr (\<lambda>k. 0) (\<lambda>k. 0)) 0 = 1 / 2"
proof -
  have b: "(0::nat) < 1" "(0::nat) < 2 * 2" "(0::nat) < 2" by simp_all
  have o: "offset5 1 1 (2 * 2 * 2) (2 * 2 * 2) 0 0 (0 + 0 * (2 * 2)) (0 + 0 * (2 * 2)) 0 = 0"
    by (simp add: offset5_def)
  have dp: "Det (Jpt 2 (Reshape2 (maps_B ex_integrator) 1 2) (Reshape2 (maps_G ex_integrator) 1 2)
      ex_Jtr (Reshape4 ex_X 2 2 2 1) 0 0 0) = 1"
    unfolding Det_def Jpt_unit by simp
  show ?thesis
    using Setup_G_at [OF b(1) b(1) b(2) b(2) b(3) b(3) b(1), where xe = ex_X and w = "\<lambda>k. 1"
        and ?b1d = "maps_B ex_integrator" and ?g1d = "maps_G ex_integrator" and Jtr = ex_Jtr
        and p = "\<lambda>k. 0" and g = "\<lambda>k. 0"]
    unfolding o sum_2 DS_unit dP_scaled_def Let_def dp dMdM_unit [OF Jpt_unit]
    by (simp add: Reshape2_def ex_Jtr_def)
qed

text \<open>
  C4 (as stated, refuted). The claim: the setup never writes a dense \<open>(2 dof) \<times> (2 dof)\<close>
  block per quadrature point. The kernel views its last argument as
  \<^verbatim>\<open>G(Q1D, Q1D, dof*VDIM, dof*VDIM, NE)\<close> and adds into it: on the unit square the entry
  \<open>(0, 0)\<close> of the block of the quadrature point, zero before, is \<open>1/2\<close> afterwards.
\<close>

theorem setup_writes_dense_block_counterexample:
  "snd (SetupGradPA_2D 2 1 ex_X 1 (\<lambda>k. 1) (maps_B ex_integrator) (maps_G ex_integrator)
            ex_Jtr (\<lambda>k. 0) (\<lambda>k. 0)) (offset5 1 1 8 8 0 0 0 0 0) \<noteq> (\<lambda>k. 0 :: real) (offset5 1 1 8 8 0 0 0 0 0)"
  using G_entry_unit by (simp add: offset5_def)

text \<open>
  C4 (amended). The setup keeps the Hessian data in factored form in \<open>P\<close>, sixteen entries
  (2x2x2x2) per quadrature point, so nothing beyond the first \<open>16 Q1D^2 NE\<close> entries of \<open>P\<close>
  changes, whatever the number of dofs; and it also accumulates, for every quadrature point, a
  dense \<open>(2 dof) \<times> (2 dof)\<close> block into \<open>G\<close>: every entry \<open>(i + r dof, j + rr dof)\<close> of the
  block receives the sum over \<open>c, cc\<close> of \<open>DS(i,c) DS(j,cc)\<close> times the scaled
  \<open>d2Metric(Jpt, r, c)[rr, cc]\<close>, and nothing beyond the first \<open>Q1D^2 (2 dof)^2 NE\<close> entries of
  \<open>G\<close> changes.
\<close>

theorem setup_footprint:
  assumes "SetupGradPA_2D D1D Q1D xe NE w b1d g1d Jtr p g = (P', G')"
  shows "(\<forall>a \<ge> 2 * (2 * (2 * (2 * (Q1D * (Q1D * NE))))). P' a = p a)
       \<and> (\<forall>a \<ge> Q1D * (Q1D * ((D1D * D1D * 2) * ((D1D * D1D * 2) * NE))). G' a = g a)
       \<and> (\<forall>e<NE. \<forall>qy<Q1D. \<forall>qx<Q1D. \<forall>r<2. \<forall>rr<2. \<forall>i<D1D * D1D. \<forall>j<D1D * D1D.
            G' (offset5 Q1D Q1D (D1D * D1D * 2) (D1D * D1D * 2) qx qy
                  (i + r * (D1D * D1D)) (j + rr * (D1D * D1D)) e) =
            g (offset5 Q1D Q1D (D1D * D1D * 2) (D1D * D1D * 2) qx qy
                  (i + r * (D1D * D1D)) (j + rr * (D1D * D1D)) e) +
            (\<Sum>c<2. \<Sum>cc<2.
               DS D1D (Reshape2 b1d Q1D D1D) (Reshape2 g1d Q1D D1D) Jtr qy qx i c *
               DS D1D (Reshape2 b1d Q1D D1D) (Reshape2 g1d Q1D D1D) Jtr qy qx j cc *
               dP_scaled (Jpt D1D (Reshape2 b1d Q1D D1D) (Reshape2 g1d Q1D D1D) Jtr
                            (Reshape4 xe D1D D1D 2 NE) e qy qx)
                 (Reshape2 w Q1D Q1D qx qy * (Jtr 0 0 * Jtr 1 1 - Jtr 0 1 * Jtr 1 0)) r c rr cc))"
proof -
  have P': "P' = fst (SetupGradPA_2D D1D Q1D xe NE w b1d g1d Jtr p g)"
    and G': "G' = snd (SetupGradPA_2D D1D Q1D xe NE w b1d g1d Jtr p g)"
    using assms by simp_all
  show ?thesis
    unfolding P' G'
    by (intro conjI allI impI) (simp_all add: Setup_P_frame Setup_G_frame Setup_G_at)
qed

text \<open>C4, witness: the unit square, \<open>P\<close> initially 7 and \<open>G\<close> initially 0: the entry after
  the sixteen of \<open>P\<close> keeps 7, the entry after the 64 of \<open>G\<close> keeps 0, the first entry of
  \<open>G\<close> becomes \<open>1/2\<close>.\<close>

theorem setup_footprint_witness:
  "fst (SetupGradPA_2D 2 1 ex_X 1 (\<lambda>k. 1) (maps_B ex_integrator) (maps_G ex_integrator)
            ex_Jtr (\<lambda>k. 7) (\<lambda>k. 0)) 16 = 7
   \<and> snd (SetupGradPA_2D 2 1 ex_X 1 (\<lambda>k. 1) (maps_B ex_integrator) (maps_G ex_integrator)
            ex_Jtr (\<lambda>k. 7) (\<lambda>k. 0)) 64 = 0
   \<and> snd (SetupGradPA_2D 2 1 ex_X 1 (\<lambda>k. 1) (maps_B ex_integrator) (maps_G ex_integrator)
            ex_Jtr (\<lambda>k. 7) (\<lambda>k. 0)) 0 = 1 / 2"
proof -
  let ?S = "SetupGradPA_2D 2 1 ex_X 1 (\<lambda>k. 1) (maps_B ex_integrator) (maps_G ex_integrator)
            ex_Jtr (\<lambda>k. 7) (\<lambda>k. 0)"
  note fp = setup_footprint [OF prod.collapse [symmetric, of ?S]]
  have o: "offset5 1 1 (2 * 2 * 2) (2 * 2 * 2) 0 0 (0 + 0 * (2 * 2)) (0 + 0 * (2 * 2)) 0 = 0"
    by (simp add: offset5_def)
  have dp: "Det (Jpt 2 (Reshape2 (maps_B ex_integrator) 1 2) (Reshape2 (maps_G ex_integrator) 1 2)
      ex_Jtr (Reshape4 ex_X 2 2 2 1) 0 0 0) = 1"
    unfolding Det_def Jpt_unit by simp
  have b: "(0::nat) < 1" "(0::nat) < 2 * 2" "(0::nat) < 2" by simp_all
  have 1: "fst ?S 16 = 7" using fp [THEN conjunct1, rule_format, of 16] by simp
  have 2: "snd ?S 64 = 0" using fp [THEN conjunct2, THEN conjunct1, rule_format, of 64] by simp
  have 3: "snd ?S 0 = 1 / 2"
    using fp [THEN conjunct2, THEN conjunct2, rule_format, OF b(1) b(1) b(1) b(3) b(3) b(2) b(2)]
    unfolding o sum_2 DS_unit dP_scaled_def Let_def dp dMdM_unit [OF Jpt_unit]
    by (simp add: Reshape2_def ex_Jtr_def)
  show ?thesis using 1 2 3 by simp
qed

text \<open>
  C5. At every quadrature point of every element (with \<open>det(Jpt) \<noteq> 0\<close> there and an
  invertible reference Jacobian), the setup stores \<open>d2Metric(Jpt, r, c)\<close> scaled by
  \<open>sign \<cdot> 0.5 \<cdot> weight \<cdot> det(Jtr)\<close> with \<open>sign = sgn(det(Jpt))\<close> in \<open>P\<close>, and for all local
  dofs \<open>i, j\<close> adds to the entry \<open>(i + r dof, j + rr dof)\<close> of the block of \<open>G\<close> the sum over
  \<open>c, cc\<close> of \<open>DS(i,c) DS(j,cc)\<close> times the stored \<open>[rr, cc]\<close> entry. The kernel is a total
  function without an error result: an inverted element only changes the sign.
\<close>

theorem setup_scales_by_orientation_sign:
  assumes "Det Jtr \<noteq> 0"
    and "e < NE" "qy < Q1D" "qx < Q1D"
    and "Jp = Jpt D1D (Reshape2 b1d Q1D D1D) (Reshape2 g1d Q1D D1D) Jtr (Reshape4 xe D1D D1D 2 NE) e qy qx"
    and "Det Jp \<noteq> 0"
    and "dS = DS D1D (Reshape2 b1d Q1D D1D) (Reshape2 g1d Q1D D1D) Jtr qy qx"
    and "SetupGradPA_2D D1D Q1D xe NE w b1d g1d Jtr p g = (P', G')"
  shows "(\<forall>r<2. \<forall>c<2. \<forall>rr<2. \<forall>cc<2.
            P' (offset7 2 2 2 2 Q1D Q1D rr cc r c qx qy e) =
              Dim2Invariant1_dMdM Jp r c rr cc *
                (sgn (Det Jp) * 0.5 * (Reshape2 w Q1D Q1D qx qy * Det Jtr)))
       \<and> (\<forall>r<2. \<forall>rr<2. \<forall>i<D1D * D1D. \<forall>j<D1D * D1D.
            G' (offset5 Q1D Q1D (D1D * D1D * 2) (D1D * D1D * 2) qx qy
                  (i + r * (D1D * D1D)) (j + rr * (D1D * D1D)) e) =
            g (offset5 Q1D Q1D (D1D * D1D * 2) (D1D * D1D * 2) qx qy
                  (i + r * (D1D * D1D)) (j + rr * (D1D * D1D)) e) +
            (\<Sum>c<2. \<Sum>cc<2. dS i c * dS j cc * P' (offset7 2 2 2 2 Q1D Q1D rr cc r c qx qy e)))"
proof -
  have P': "P' = fst (SetupGradPA_2D D1D Q1D xe NE w b1d g1d Jtr p g)"
    and G': "G' = snd (SetupGradPA_2D D1D Q1D xe NE w b1d g1d Jtr p g)"
    using assms(8) by simp_all
  have Pat: "P' (offset7 2 2 2 2 Q1D Q1D rr cc r c qx qy e) =
              Dim2Invariant1_dMdM Jp r c rr cc *
                (sgn (Det Jp) * 0.5 * (Reshape2 w Q1D Q1D qx qy * Det Jtr))"
    if "r < 2" "c < 2" "rr < 2" "cc < 2" for r c rr cc
    unfolding P' Setup_P_at [OF that(3,4,1,2) assms(4,3,2)]
    using dP_scaled_sgn [OF assms(6)] by (simp only: assms(5))
  have Gat: "G' (offset5 Q1D Q1D (D1D * D1D * 2) (D1D * D1D * 2) qx qy
                  (i + r * (D1D * D1D)) (j + rr * (D1D * D1D)) e) =
            g (offset5 Q1D Q1D (D1D * D1D * 2) (D1D * D1D * 2) qx qy
                  (i + r * (D1D * D1D)) (j + rr * (D1D * D1D)) e) +
            (\<Sum>c<2. \<Sum>cc<2. dS i c * dS j cc * P' (offset7 2 2 2 2 Q1D Q1D rr cc r c qx qy e))"
    if "r < 2" "rr < 2" "i < D1D * D1D" "j < D1D * D1D" for r rr i j
  proof -
    have "(\<Sum>c<2. \<Sum>cc<2. dS i c * dS j cc * P' (offset7 2 2 2 2 Q1D Q1D rr cc r c qx qy e)) =
          (\<Sum>c<2. \<Sum>cc<2. dS i c * dS j cc *
             dP_scaled (Jpt D1D (Reshape2 b1d Q1D D1D) (Reshape2 g1d Q1D D1D) Jtr
                         (Reshape4 xe D1D D1D 2 NE) e qy qx)
              (Reshape2 w Q1D Q1D qx qy * (Jtr 0 0 * Jtr 1 1 - Jtr 0 1 * Jtr 1 0)) r c rr cc)"
      by (intro sum.cong refl) (simp add: P' Setup_P_at that assms(2-4))
    then show ?thesis
      unfolding G' Setup_G_at [OF assms(4,3) that(3,4,1,2) assms(2)] assms(7)
      by simp
  qed
  show ?thesis
    using Pat Gat by blast
qed

text \<open>C5, witness: the mirrored unit square, \<open>det(Jpt) = -1\<close>: the first entry of \<open>P\<close> is
  \<open>(-2) \<cdot> (-1) \<cdot> 0.5 = 1\<close>.\<close>

theorem setup_scales_by_orientation_sign_witness:
  "Det (Jpt 2 (Reshape2 (maps_B ex_integrator) 1 2) (Reshape2 (maps_G ex_integrator) 1 2) ex_Jtr
          (Reshape4 ex_X_inverted 2 2 2 1) 0 0 0) = - 1
   \<and> fst (SetupGradPA_2D 2 1 ex_X_inverted 1 (\<lambda>k. 1) (maps_B ex_integrator) (maps_G ex_integrator)
            ex_Jtr (\<lambda>k. 0) (\<lambda>k. 0)) (offset7 2 2 2 2 1 1 0 0 0 0 0 0 0) = 1"
proof -
  let ?Jp = "Jpt 2 (Reshape2 (maps_B ex_integrator) 1 2) (Reshape2 (maps_G ex_integrator) 1 2) ex_Jtr
          (Reshape4 ex_X_inverted 2 2 2 1) 0 0 0"
  let ?S = "SetupGradPA_2D 2 1 ex_X_inverted 1 (\<lambda>k. 1) (maps_B ex_integrator) (maps_G ex_integrator)
            ex_Jtr (\<lambda>k. 0) (\<lambda>k. 0)"
  have dJ: "Det ex_Jtr \<noteq> 0" and dJ1: "Det ex_Jtr = 1" by (simp_all add: Det_def ex_Jtr_def)
  have dp: "Det ?Jp = - 1" unfolding Det_def Jpt_inverted by simp
  then have dp0: "Det ?Jp \<noteq> 0" by simp
  have b: "(0::nat) < 1" "(0::nat) < 2" by simp_all
  have "fst ?S (offset7 2 2 2 2 1 1 0 0 0 0 0 0 0) =
          Dim2Invariant1_dMdM ?Jp 0 0 0 0 *
            (sgn (Det ?Jp) * 0.5 * (Reshape2 (\<lambda>k. 1) 1 1 0 0 * Det ex_Jtr))"
    using setup_scales_by_orientation_sign [OF dJ b(1) b(1) b(1) refl dp0 refl
        prod.collapse [symmetric, of ?S]] b(2) by blast
  then show ?thesis
    unfolding dMdM_inverted [OF Jpt_inverted] dp dJ1
    by (simp add: Reshape2_def)
qed

end
